theory Spec2Isabelle
  imports Main
begin

section \<open>The gateway: dispatch router and wallet wrappers\<close>

text \<open>
  A shallow embedding of the JSON-RPC gateway: the request handler that
  \<^verbatim>\<open>WalletMiddlewareServer.initialize\<close> installs (\<^verbatim>\<open>src/ethers/server.ts\<close>),
  the epoch-chain wallet wrapper (\<^verbatim>\<open>src/lib/conflux/wrapper.ts\<close>) and the
  claim-chain (Reef) wallet wrapper. The code is asynchronous JavaScript; an
  awaited call is modelled by its outcome, a value returned or a value thrown, and
  a method that calls an external collaborator takes the collaborator's outcomes
  as a parameter and returns the calls it made next to its own outcome. Logging is
  left out, except where building the log line can throw.
\<close>

subsection \<open>JavaScript values\<close>

text \<open>
  The values that requests, results and thrown failures are made of: the JSON
  values, \<^verbatim>\<open>undefined\<close>, and instances of \<^verbatim>\<open>Error\<close> (name, message and
  the other own enumerable properties, as ethers attaches \<^verbatim>\<open>code\<close>,
  \<^verbatim>\<open>reason\<close> and \<^verbatim>\<open>body\<close>). Numbers are the integers; an object lists its
  own properties in insertion order.
\<close>

datatype jsval =
    VUndefined
  | VNull
  | VBool bool
  | VNum int
  | VStr string
  | VArr "jsval list"
  | VObj "(string \<times> jsval) list"
  | VError string string "(string \<times> jsval) list"

datatype 'a outcome = Returns 'a | Throws jsval

definition TypeError :: "string \<Rightarrow> jsval" where
  "TypeError msg = VError ''TypeError'' msg []"

definition SyntaxError :: "string \<Rightarrow> jsval" where
  "SyntaxError msg = VError ''SyntaxError'' msg []"

text \<open>Decimal and hexadecimal text of integers (\<^verbatim>\<open>toString(10)\<close>, \<^verbatim>\<open>toString(16)\<close>).\<close>

definition digit_char :: "nat \<Rightarrow> char" where
  "digit_char d = ''0123456789abcdef'' ! d"

fun dec_nat :: "nat \<Rightarrow> string" where
  "dec_nat n = (if n < 10 then [digit_char n] else dec_nat (n div 10) @ [digit_char (n mod 10)])"

fun hex_nat :: "nat \<Rightarrow> string" where
  "hex_nat n = (if n < 16 then [digit_char n] else hex_nat (n div 16) @ [digit_char (n mod 16)])"

declare dec_nat.simps [simp del] hex_nat.simps [simp del]

definition dec_int :: "int \<Rightarrow> string" where
  "dec_int i = (if i < 0 then CHR ''-'' # dec_nat (nat (- i)) else dec_nat (nat i))"

definition hex_int :: "int \<Rightarrow> string" where
  "hex_int i = (if i < 0 then CHR ''-'' # hex_nat (nat (- i)) else hex_nat (nat i))"

definition is_digit :: "char \<Rightarrow> bool" where
  "is_digit c = (c \<in> set ''0123456789'')"

definition digit_val :: "char \<Rightarrow> nat" where
  "digit_val c = of_char c - 48"

fun parse_nat :: "nat \<Rightarrow> string \<Rightarrow> nat \<times> string" where
  "parse_nat acc [] = (acc, [])"
| "parse_nat acc (c # cs) = (if is_digit c then parse_nat (10 * acc + digit_val c) cs else (acc, c # cs))"

text \<open>
  \<^verbatim>\<open>BigInt(text)\<close> for decimal text: an optional sign and digits (the empty
  text is zero); \<open>None\<close> is the \<^verbatim>\<open>SyntaxError\<close>.
\<close>

definition BigInt :: "string \<Rightarrow> int option" where
  "BigInt s =
     (let neg = (s \<noteq> [] \<and> hd s = CHR ''-'');
          ds = (if s \<noteq> [] \<and> (hd s = CHR ''-'' \<or> hd s = CHR ''+'') then tl s else s)
      in if s = [] then Some 0
         else if ds = [] \<or> snd (parse_nat 0 ds) \<noteq> [] then None
         else Some (if neg then - int (fst (parse_nat 0 ds)) else int (fst (parse_nat 0 ds))))"

text \<open>
  Truthiness, the test for \<^verbatim>\<open>undefined\<close> or \<^verbatim>\<open>null\<close>, and
  \<^verbatim>\<open>typeof v === 'string'\<close>.
\<close>

definition truthy :: "jsval \<Rightarrow> bool" where
  "truthy v = (case v of VUndefined \<Rightarrow> False | VNull \<Rightarrow> False | VBool b \<Rightarrow> b
     | VNum n \<Rightarrow> n \<noteq> 0 | VStr s \<Rightarrow> s \<noteq> [] | _ \<Rightarrow> True)"

definition nullish :: "jsval \<Rightarrow> bool" where
  "nullish v = (v = VUndefined \<or> v = VNull)"

definition is_string :: "jsval \<Rightarrow> bool" where
  "is_string v = (case v of VStr s \<Rightarrow> True | _ \<Rightarrow> False)"

text \<open>
  Reading a property of a value that is not \<^verbatim>\<open>undefined\<close> or \<^verbatim>\<open>null\<close> (on
  those the read throws, which each caller tests with \<open>nullish\<close> first). A later
  entry for a key wins over an earlier one; none of the keys read here is inherited
  by a string, a number, a boolean or an array.
\<close>

definition own_property :: "(string \<times> jsval) list \<Rightarrow> string \<Rightarrow> jsval option" where
  "own_property kvs k = map_of (rev kvs) k"

definition js_get :: "jsval \<Rightarrow> string \<Rightarrow> jsval" where
  "js_get v k = (case v of
       VObj kvs \<Rightarrow> (case own_property kvs k of Some x \<Rightarrow> x | None \<Rightarrow> VUndefined)
     | VError n m kvs \<Rightarrow> (case own_property kvs k of Some x \<Rightarrow> x
          | None \<Rightarrow> if k = ''message'' then VStr m else if k = ''name'' then VStr n else VUndefined)
     | _ \<Rightarrow> VUndefined)"

text \<open>
  Conversion to a string, as a template literal and \<^verbatim>\<open>toString()\<close> do it. An
  object whose own \<^verbatim>\<open>toString\<close> property shadows the inherited method cannot be
  converted (no value of this model is a function): \<open>None\<close> is the
  \<^verbatim>\<open>TypeError\<close>. An array joins its elements with commas, \<^verbatim>\<open>null\<close> and
  \<^verbatim>\<open>undefined\<close> as the empty text.
\<close>

fun intercalate :: "string \<Rightarrow> string list \<Rightarrow> string" where
  "intercalate sep [] = []"
| "intercalate sep [x] = x"
| "intercalate sep (x # y # ys) = x @ sep @ intercalate sep (y # ys)"

fun to_string :: "jsval \<Rightarrow> string option"
  and to_string_elems :: "jsval list \<Rightarrow> string list option" where
  "to_string VUndefined = Some ''undefined''"
| "to_string VNull = Some ''null''"
| "to_string (VBool b) = Some (if b then ''true'' else ''false'')"
| "to_string (VNum n) = Some (dec_int n)"
| "to_string (VStr s) = Some s"
| "to_string (VArr xs) = map_option (intercalate '','') (to_string_elems xs)"
| "to_string (VObj kvs) =
     (if own_property kvs ''toString'' = None then Some ''[object Object]'' else None)"
| "to_string (VError n m kvs) =
     (if own_property kvs ''toString'' = None
      then Some (if m = [] then n else if n = [] then m else n @ '': '' @ m) else None)"
| "to_string_elems [] = Some []"
| "to_string_elems (x # xs) =
     (case (if nullish x then Some [] else to_string x) of None \<Rightarrow> None
      | Some s \<Rightarrow> map_option (Cons s) (to_string_elems xs))"

subsection \<open>JSON text\<close>

text \<open>
  \<^verbatim>\<open>JSON.stringify\<close> and \<^verbatim>\<open>JSON.parse\<close>. A value is first reduced to
  the JSON value it serialises as: \<^verbatim>\<open>undefined\<close> has none, a member whose value
  is \<^verbatim>\<open>undefined\<close> is left out, an \<^verbatim>\<open>undefined\<close> array element becomes
  \<^verbatim>\<open>null\<close>, and an \<^verbatim>\<open>Error\<close> serialises its own enumerable properties.
\<close>

datatype json =
    JNull
  | JBool bool
  | JNum int
  | JStr string
  | JArr "json list"
  | JObj "(string \<times> json) list"

fun to_json :: "jsval \<Rightarrow> json option"
  and to_json_elems :: "jsval list \<Rightarrow> json list"
  and to_json_members :: "(string \<times> jsval) list \<Rightarrow> (string \<times> json) list" where
  "to_json VUndefined = None"
| "to_json VNull = Some JNull"
| "to_json (VBool b) = Some (JBool b)"
| "to_json (VNum n) = Some (JNum n)"
| "to_json (VStr s) = Some (JStr s)"
| "to_json (VArr xs) = Some (JArr (to_json_elems xs))"
| "to_json (VObj kvs) = Some (JObj (to_json_members kvs))"
| "to_json (VError n m kvs) = Some (JObj (to_json_members kvs))"
| "to_json_elems [] = []"
| "to_json_elems (x # xs) =
     (case to_json x of None \<Rightarrow> JNull | Some j \<Rightarrow> j) # to_json_elems xs"
| "to_json_members [] = []"
| "to_json_members ((k, v) # kvs) =
     (case to_json v of None \<Rightarrow> to_json_members kvs
      | Some j \<Rightarrow> (k, j) # to_json_members kvs)"

text \<open>
  The value \<^verbatim>\<open>JSON.parse\<close> builds from a JSON value: a repeated key keeps its
  first position and its last value.
\<close>

fun obj_put :: "(string \<times> jsval) list \<Rightarrow> string \<Rightarrow> jsval \<Rightarrow> (string \<times> jsval) list" where
  "obj_put [] k v = [(k, v)]"
| "obj_put ((k', v') # kvs) k v =
     (if k' = k then (k, v) # kvs else (k', v') # obj_put kvs k v)"

fun of_json :: "json \<Rightarrow> jsval"
  and of_json_elems :: "json list \<Rightarrow> jsval list"
  and of_json_members :: "(string \<times> json) list \<Rightarrow> (string \<times> jsval) list \<Rightarrow> (string \<times> jsval) list" where
  "of_json JNull = VNull"
| "of_json (JBool b) = VBool b"
| "of_json (JNum n) = VNum n"
| "of_json (JStr s) = VStr s"
| "of_json (JArr xs) = VArr (of_json_elems xs)"
| "of_json (JObj kvs) = VObj (of_json_members kvs [])"
| "of_json_elems [] = []"
| "of_json_elems (x # xs) = of_json x # of_json_elems xs"
| "of_json_members [] acc = acc"
| "of_json_members ((k, v) # kvs) acc = of_json_members kvs (obj_put acc k (of_json v))"

text \<open>The text of a JSON value, with no white space, as \<^verbatim>\<open>JSON.stringify\<close> writes it.\<close>

definition escape_char :: "char \<Rightarrow> string" where
  "escape_char c =
     (if c = CHR 0x22 then [CHR 0x5C, CHR 0x22]
      else if c = CHR 0x5C then [CHR 0x5C, CHR 0x5C]
      else if c = CHR 0x08 then [CHR 0x5C, CHR ''b'']
      else if c = CHR 0x0C then [CHR 0x5C, CHR ''f'']
      else if c = CHR 0x0A then [CHR 0x5C, CHR ''n'']
      else if c = CHR 0x0D then [CHR 0x5C, CHR ''r'']
      else if c = CHR 0x09 then [CHR 0x5C, CHR ''t'']
      else if (of_char c :: nat) < 32
      then [CHR 0x5C, CHR ''u'', CHR ''0'', CHR ''0'',
            digit_char (of_char c div 16), digit_char (of_char c mod 16)]
      else [c])"

fun escape :: "string \<Rightarrow> string" where
  "escape [] = []"
| "escape (c # cs) = escape_char c @ escape cs"

definition quote :: "string \<Rightarrow> string" where
  "quote s = CHR 0x22 # escape s @ [CHR 0x22]"

fun print_json :: "json \<Rightarrow> string"
  and print_elems :: "json list \<Rightarrow> string"
  and print_members :: "(string \<times> json) list \<Rightarrow> string" where
  "print_json JNull = ''null''"
| "print_json (JBool b) = (if b then ''true'' else ''false'')"
| "print_json (JNum n) = dec_int n"
| "print_json (JStr s) = quote s"
| "print_json (JArr xs) = CHR ''['' # print_elems xs @ '']''"
| "print_json (JObj kvs) = CHR ''{'' # print_members kvs @ ''}''"
| "print_elems [] = []"
| "print_elems [x] = print_json x"
| "print_elems (x # y # ys) = print_json x @ CHR '','' # print_elems (y # ys)"
| "print_members [] = []"
| "print_members [(k, v)] = quote k @ CHR '':'' # print_json v"
| "print_members ((k, v) # kv # kvs) =
     quote k @ CHR '':'' # print_json v @ CHR '','' # print_members (kv # kvs)"

definition JSON_stringify :: "jsval \<Rightarrow> jsval" where
  "JSON_stringify v = (case to_json v of None \<Rightarrow> VUndefined | Some j \<Rightarrow> VStr (print_json j))"

text \<open>
  The parser: recursive descent over the characters, with a recursion budget that
  \<open>JSON_parse\<close> sets to more than the length of the text; \<open>JSON_parse_print\<close>
  below shows that the budget is enough for every text that
  \<^verbatim>\<open>JSON.stringify\<close> writes. \<open>None\<close> is the \<^verbatim>\<open>SyntaxError\<close>. Of the
  number literals the parser reads the integers (a fraction or an exponent is
  refused), and of the four-digit character escapes those below 256.
\<close>

definition is_ws :: "char \<Rightarrow> bool" where
  "is_ws c = (c = CHR '' '' \<or> c = CHR 0x09 \<or> c = CHR 0x0A \<or> c = CHR 0x0D)"

fun skip_ws :: "string \<Rightarrow> string" where
  "skip_ws [] = []"
| "skip_ws (c # cs) = (if is_ws c then skip_ws cs else c # cs)"

definition hex_val :: "char \<Rightarrow> nat option" where
  "hex_val c =
     (if c \<in> set ''0123456789'' then Some (of_char c - 48)
      else if c \<in> set ''abcdef'' then Some (of_char c - 87)
      else if c \<in> set ''ABCDEF'' then Some (of_char c - 55)
      else None)"

definition hex4 :: "char \<Rightarrow> char \<Rightarrow> char \<Rightarrow> char \<Rightarrow> nat option" where
  "hex4 a b c d =
     (case (hex_val a, hex_val b, hex_val c, hex_val d) of
        (Some h3, Some h2, Some h1, Some h0) \<Rightarrow> Some (((h3 * 16 + h2) * 16 + h1) * 16 + h0)
      | _ \<Rightarrow> None)"

definition unescape :: "char \<Rightarrow> char option" where
  "unescape e =
     (if e = CHR 0x22 then Some (CHR 0x22)
      else if e = CHR 0x5C then Some (CHR 0x5C)
      else if e = CHR ''/'' then Some (CHR ''/'')
      else if e = CHR ''b'' then Some (CHR 0x08)
      else if e = CHR ''f'' then Some (CHR 0x0C)
      else if e = CHR ''n'' then Some (CHR 0x0A)
      else if e = CHR ''r'' then Some (CHR 0x0D)
      else if e = CHR ''t'' then Some (CHR 0x09)
      else None)"

fun parse_chars :: "string \<Rightarrow> (string \<times> string) option" where
  "parse_chars [] = None"
| "parse_chars (c # cs) =
     (if c = CHR 0x22 then Some ([], cs)
      else if c = CHR 0x5C then
        (case cs of
           [] \<Rightarrow> None
         | e # cs' \<Rightarrow>
             if e = CHR ''u'' then
               (case cs' of
                  h3 # h2 # h1 # h0 # r \<Rightarrow>
                    (case hex4 h3 h2 h1 h0 of
                       None \<Rightarrow> None
                     | Some n \<Rightarrow>
                         if n < 256
                         then map_option (\<lambda>(s, r'). (char_of n # s, r')) (parse_chars r)
                         else None)
                | _ \<Rightarrow> None)
             else
               (case unescape e of
                  None \<Rightarrow> None
                | Some ch \<Rightarrow> map_option (\<lambda>(s, r'). (ch # s, r')) (parse_chars cs')))
      else if (of_char c :: nat) < 32 then None
      else map_option (\<lambda>(s, r'). (c # s, r')) (parse_chars cs))"

definition number_end :: "string \<Rightarrow> bool" where
  "number_end rest = (rest = [] \<or> (\<not> is_digit (hd rest) \<and> hd rest \<notin> set ''.eE''))"

definition value_start :: "char \<Rightarrow> bool" where
  "value_start c = (is_digit c \<or> c \<in> set ''ntf-[{'' \<or> c = CHR 0x22)"

definition parse_number :: "string \<Rightarrow> (json \<times> string) option" where
  "parse_number s =
     (let neg = (s \<noteq> [] \<and> hd s = CHR ''-'');
          ds = (if neg then tl s else s)
      in if ds = [] \<or> \<not> is_digit (hd ds) then None
         else if hd ds = CHR ''0'' \<and> tl ds \<noteq> [] \<and> is_digit (hd (tl ds)) then None
         else (case parse_nat 0 ds of
                 (n, r) \<Rightarrow>
                   if r \<noteq> [] \<and> hd r \<in> set ''.eE'' then None
                   else Some (JNum (if neg then - int n else int n), r)))"

definition parse_literal :: "string \<Rightarrow> json \<Rightarrow> string \<Rightarrow> (json \<times> string) option" where
  "parse_literal lit j s =
     (if take (length lit) s = lit then Some (j, drop (length lit) s) else None)"

fun parse_value :: "nat \<Rightarrow> string \<Rightarrow> (json \<times> string) option"
  and parse_elems :: "nat \<Rightarrow> string \<Rightarrow> (json list \<times> string) option"
  and parse_members :: "nat \<Rightarrow> string \<Rightarrow> ((string \<times> json) list \<times> string) option" where
  "parse_value 0 s = None"
| "parse_value (Suc n) s =
     (case skip_ws s of
        [] \<Rightarrow> None
      | c # cs \<Rightarrow>
          if c = CHR ''n'' then parse_literal ''null'' JNull (c # cs)
          else if c = CHR ''t'' then parse_literal ''true'' (JBool True) (c # cs)
          else if c = CHR ''f'' then parse_literal ''false'' (JBool False) (c # cs)
          else if c = CHR 0x22 then map_option (\<lambda>(s, r). (JStr s, r)) (parse_chars cs)
          else if c = CHR ''['' then
            (if skip_ws cs \<noteq> [] \<and> hd (skip_ws cs) = CHR '']''
             then Some (JArr [], tl (skip_ws cs))
             else map_option (\<lambda>(xs, r). (JArr xs, r)) (parse_elems n cs))
          else if c = CHR ''{'' then
            (if skip_ws cs \<noteq> [] \<and> hd (skip_ws cs) = CHR ''}''
             then Some (JObj [], tl (skip_ws cs))
             else map_option (\<lambda>(kvs, r). (JObj kvs, r)) (parse_members n cs))
          else parse_number (c # cs))"
| "parse_elems 0 s = None"
| "parse_elems (Suc n) s =
     (case parse_value n s of
        None \<Rightarrow> None
      | Some (x, r) \<Rightarrow>
          (case skip_ws r of
             [] \<Rightarrow> None
           | c # r' \<Rightarrow>
               if c = CHR '','' then map_option (\<lambda>(xs, r''). (x # xs, r'')) (parse_elems n r')
               else if c = CHR '']'' then Some ([x], r')
               else None))"
| "parse_members 0 s = None"
| "parse_members (Suc n) s =
     (case skip_ws s of
        [] \<Rightarrow> None
      | q # cs \<Rightarrow>
          if q \<noteq> CHR 0x22 then None
          else
            (case parse_chars cs of
               None \<Rightarrow> None
             | Some (k, r) \<Rightarrow>
                 (case skip_ws r of
                    [] \<Rightarrow> None
                  | c # r1 \<Rightarrow>
                      if c \<noteq> CHR '':'' then None
                      else
                        (case parse_value n r1 of
                           None \<Rightarrow> None
                         | Some (v, r2) \<Rightarrow>
                             (case skip_ws r2 of
                                [] \<Rightarrow> None
                              | d # r3 \<Rightarrow>
                                  if d = CHR '','' then
                                    map_option (\<lambda>(kvs, r4). ((k, v) # kvs, r4)) (parse_members n r3)
                                  else if d = CHR ''}'' then Some ([(k, v)], r3)
                                  else None)))))"

definition JSON_parse :: "string \<Rightarrow> jsval option" where
  "JSON_parse s =
     (case parse_value (Suc (length s)) s of
        None \<Rightarrow> None
      | Some (j, r) \<Rightarrow> if skip_ws r = [] then Some (of_json j) else None)"

subsection \<open>The dispatch router\<close>

text \<open>
  The handler table of the request handler, the upstream provider the wrapper
  holds, the connection of the request and the parsed request body. A field of the
  body that is absent reads as \<^verbatim>\<open>undefined\<close>.
\<close>

type_synonym handler = "jsval list \<Rightarrow> jsval outcome"

record handlers =
  eth_accounts :: handler
  eth_sendTransaction :: handler
  eth_sign :: handler

record provider =
  send :: "jsval \<Rightarrow> jsval \<Rightarrow> jsval outcome"
  nextId :: jsval

record connection =
  remoteAddress :: jsval
  remotePort :: jsval

record request =
  rq_id :: jsval
  rq_jsonrpc :: jsval
  rq_method :: jsval
  rq_params :: jsval

text \<open>What the router called to serve a request.\<close>

datatype call =
    HandlerCall string "jsval list"
  | InheritedCall string "jsval list"
  | UpstreamSend jsval jsval

text \<open>
  \<^verbatim>\<open>request.method in handlers\<close>. The table is an object literal, so the
  \<^verbatim>\<open>in\<close> operator finds its three own keys and also the members it inherits
  from \<^verbatim>\<open>Object.prototype\<close>: eleven functions and the accessor
  \<^verbatim>\<open>__proto__\<close>, whose value is an object and not a function.
\<close>

definition own_handler :: "handlers \<Rightarrow> string \<Rightarrow> handler option" where
  "own_handler h k =
     (if k = ''eth_accounts'' then Some (eth_accounts h)
      else if k = ''eth_sendTransaction'' then Some (eth_sendTransaction h)
      else if k = ''eth_sign'' then Some (eth_sign h)
      else None)"

definition Object_prototype_functions :: "string list" where
  "Object_prototype_functions =
     [''constructor'', ''__defineGetter__'', ''__defineSetter__'', ''hasOwnProperty'',
      ''__lookupGetter__'', ''__lookupSetter__'', ''isPrototypeOf'',
      ''propertyIsEnumerable'', ''toString'', ''valueOf'', ''toLocaleString'']"

definition in_handlers :: "handlers \<Rightarrow> string \<Rightarrow> bool" where
  "in_handlers h k =
     (own_handler h k \<noteq> None \<or> k \<in> set Object_prototype_functions \<or> k = ''__proto__'')"

text \<open>
  The spread \<^verbatim>\<open>...(request.params || [])\<close>: an array gives its elements, a
  string its characters, and any other value reached here is not iterable.
\<close>

fun spread :: "jsval \<Rightarrow> jsval list outcome" where
  "spread (VArr xs) = Returns xs"
| "spread (VStr s) = Returns (map (\<lambda>c. VStr [c]) s)"
| "spread v = Throws (TypeError ''Spread syntax requires ...iterable[Symbol.iterator] to be a function'')"

definition socket_of :: "connection \<Rightarrow> request \<Rightarrow> provider \<Rightarrow> jsval" where
  "socket_of conn r p =
     VObj [(''clientAddr'', remoteAddress conn), (''clientPort'', remotePort conn),
           (''clientId'', rq_id r), (''serverId'', nextId p)]"

text \<open>
  The body of the \<^verbatim>\<open>try\<close> block: the call made and its outcome. \<open>builtin\<close>
  is the JavaScript runtime: what the inherited function of that name returns when
  called with \<^verbatim>\<open>this\<close> bound to the wrapper.
\<close>

definition route :: "handlers \<Rightarrow> provider \<Rightarrow> (string \<Rightarrow> handler) \<Rightarrow> request \<Rightarrow> jsval
    \<Rightarrow> call list \<times> jsval outcome" where
  "route h p builtin r socket =
     (case to_string (rq_method r) of
        None \<Rightarrow> ([], Throws (TypeError ''Cannot convert object to primitive value''))
      | Some key \<Rightarrow>
          if in_handlers h key then
            (if key = ''__proto__''
             then ([], Throws (TypeError ''handlers[request.method].bind is not a function''))
             else
               (case spread (if truthy (rq_params r) then rq_params r else VArr []) of
                  Throws e \<Rightarrow> ([], Throws e)
                | Returns args \<Rightarrow>
                    (case own_handler h key of
                       Some f \<Rightarrow> ([HandlerCall key (args @ [socket])], f (args @ [socket]))
                     | None \<Rightarrow> ([InheritedCall key (args @ [socket])], builtin key (args @ [socket])))))
          else ([UpstreamSend (rq_method r) (rq_params r)], send p (rq_method r) (rq_params r)))"

definition header :: "request \<Rightarrow> (string \<times> jsval) list" where
  "header r = [(''jsonrpc'', rq_jsonrpc r), (''id'', rq_id r)]"

text \<open>
  The \<^verbatim>\<open>catch\<close> block, statement by statement. First the thrown value with no
  (truthy) \<^verbatim>\<open>code\<close> is replaced by an execution error; reading \<^verbatim>\<open>code\<close>
  of \<^verbatim>\<open>undefined\<close> or \<^verbatim>\<open>null\<close> throws.
\<close>

definition execution_error :: "jsval \<Rightarrow> jsval outcome" where
  "execution_error exception =
     (if nullish exception
      then Throws (TypeError ''Cannot read properties of undefined (reading code)'')
      else if truthy (js_get exception ''code'') then Returns exception
      else
        (case to_string exception of
           None \<Rightarrow> Throws (TypeError ''exception.toString is not a function'')
         | Some reason \<Rightarrow>
             Returns (VObj
               [(''reason'', VStr reason),
                (''body'', VObj
                   [(''error'', VObj
                      [(''code'', VNum (- 32015)),
                       (''message'',
                          if truthy (js_get exception ''data'') then VStr ''Execution error''
                          else JSON_stringify exception),
                       (''data'', js_get exception ''data'')])])])))"

text \<open>\<^verbatim>\<open>a && b\<close> on values already computed (reading \<open>b\<close> has no effect here).\<close>

definition js_and :: "jsval \<Rightarrow> jsval \<Rightarrow> jsval" where
  "js_and a b = (if truthy a then b else a)"

definition error_message :: "jsval \<Rightarrow> jsval" where
  "error_message exception =
     (if truthy (js_get exception ''reason'') then js_get exception ''reason''
      else if truthy (js_and (js_get exception ''error'') (js_get (js_get exception ''error'') ''reason''))
      then js_and (js_get exception ''error'') (js_get (js_get exception ''error'') ''reason'')
      else if truthy exception then exception
      else VStr ''null exception'')"

definition error_body :: "jsval \<Rightarrow> jsval \<Rightarrow> jsval outcome" where
  "error_body exception message =
     (if truthy (js_get exception ''body'') then Returns (js_get exception ''body'')
      else if truthy (js_and (js_get exception ''error'') (js_get (js_get exception ''error'') ''body''))
      then Returns (js_get (js_get exception ''error'') ''body'')
      else
        (case to_string message of
           None \<Rightarrow> Throws (TypeError ''Cannot convert object to primitive value'')
         | Some m \<Rightarrow>
             Returns (VObj
               [(''error'', VObj
                  [(''code'', if truthy (js_get exception ''code'') then js_get exception ''code''
                              else VNum (- 32099)),
                   (''message'', VStr (CHR 0x22 # m @ [CHR 0x22])),
                   (''data'', js_get exception ''data'')])])))"

text \<open>
  The body is serialised unless it is a string already, parsed, and the
  \<^verbatim>\<open>error\<close> member of the parsed value becomes the response's error. When the
  parse throws, or the parsed value is \<^verbatim>\<open>null\<close>, the inner \<^verbatim>\<open>catch\<close>
  puts a fixed string there.
\<close>

definition invalid_json_response :: string where
  \<open>invalid_json_response = ''{ "code": -32700, "message": "Invalid JSON response" }''\<close>

definition error_response :: "(string \<times> jsval) list \<Rightarrow> jsval \<Rightarrow> jsval" where
  "error_response hdr body =
     (case (case (if is_string body then body else JSON_stringify body) of
              VStr s \<Rightarrow> JSON_parse s
            | _ \<Rightarrow> None) of
        None \<Rightarrow> VObj (hdr @ [(''error'', VStr invalid_json_response)])
      | Some parsed \<Rightarrow>
          if nullish parsed then VObj (hdr @ [(''error'', VStr invalid_json_response)])
          else VObj (hdr @ [(''error'', js_get parsed ''error'')]))"

definition normalize :: "(string \<times> jsval) list \<Rightarrow> jsval \<Rightarrow> jsval outcome" where
  "normalize hdr thrown =
     (case execution_error thrown of
        Throws t \<Rightarrow> Throws t
      | Returns exception \<Rightarrow>
          (case error_body exception (error_message exception) of
             Throws t \<Rightarrow> Throws t
           | Returns body \<Rightarrow> Returns (error_response hdr body)))"

text \<open>
  The request handler: the calls it made, and the response object it passes to
  \<^verbatim>\<open>res.status(200).json\<close>, or the value thrown out of the handler. The log
  line of the method (a template literal) is built before the \<^verbatim>\<open>try\<close> block.
\<close>

definition initialize :: "handlers \<Rightarrow> provider \<Rightarrow> (string \<Rightarrow> handler) \<Rightarrow> connection \<Rightarrow> request
    \<Rightarrow> call list \<times> jsval outcome" where
  "initialize h p builtin conn r =
     (if to_string (rq_method r) = None
      then ([], Throws (TypeError ''Cannot convert object to primitive value''))
      else
        (case route h p builtin r (socket_of conn r p) of
           (calls, Returns result) \<Rightarrow> (calls, Returns (VObj (header r @ [(''result'', result)])))
         | (calls, Throws exception) \<Rightarrow> (calls, normalize (header r) exception)))"

text \<open>
  The body \<^verbatim>\<open>res.json\<close> sends is the JSON text of the response object, and the
  members a client finds in it are those of the JSON value.
\<close>

definition sent_body :: "jsval \<Rightarrow> jsval" where
  "sent_body response = JSON_stringify response"

definition sent_members :: "jsval \<Rightarrow> string list" where
  "sent_members response =
     (case to_json response of Some (JObj kvs) \<Rightarrow> map fst kvs | _ \<Rightarrow> [])"

subsection \<open>Epoch-chain (Conflux) wallet wrapper\<close>

text \<open>
  The fields of the Conflux \<^verbatim>\<open>WalletWrapper\<close> that its methods read or write.
  Epoch numbers are JavaScript numbers holding integers.
\<close>

record conflux_wrapper =
  networkId :: int
  epochLabel :: string
  estimateGasPrice :: bool
  interleaveEpochs :: int
  lastKnownEpochNumber :: int
  alwaysSynced :: bool

text \<open>
  The transaction parameters a caller passes (\<^verbatim>\<open>params: Transaction\<close>), the
  \<^verbatim>\<open>options\<close> object composed from them, the cost estimation and the
  \<^verbatim>\<open>payload\<close> handed to the SDK.
\<close>

record transaction =
  tx_from :: jsval
  tx_to :: jsval
  tx_gasPrice :: jsval
  tx_value :: jsval
  tx_data :: jsval
  tx_gas :: jsval

record options =
  o_from :: jsval
  o_to :: jsval
  o_gasPrice :: jsval
  o_value :: jsval
  o_data :: jsval
  o_nonce :: string
  o_epochHeight :: string
  o_chainId :: string

record estimation =
  storageCollateralized :: jsval
  gasLimit :: jsval

record payload = options +
  storageLimit :: string
  gas :: string

text \<open>
  The SDK object \<^verbatim>\<open>this.conflux\<close>, an external collaborator: the addresses of
  the keys in its wallet, its configured default gas price, and the outcome of each
  remote call the wrapper awaits. \<^verbatim>\<open>getEpochNumber\<close> takes the epoch label it
  is called with (\<open>None\<close> when called without one).
\<close>

record conflux =
  wallet :: "string list"
  defaultGasPrice :: int
  getGasPrice :: "int outcome"
  getEpochNumber :: "string option \<Rightarrow> int outcome"
  getNextNonce :: "jsval \<Rightarrow> int outcome"
  estimateGasAndCollateral :: "options \<Rightarrow> estimation outcome"
  cfx_sendTransaction :: "payload \<Rightarrow> jsval outcome"
  signMessage :: "jsval \<Rightarrow> jsval \<Rightarrow> jsval outcome"

text \<open>The calls a wrapper method makes on the SDK object, in order.\<close>

datatype conflux_call =
    GetEpochNumber "string option"
  | GetGasPrice
  | GetNextNonce jsval
  | EstimateGasAndCollateral options
  | SendTransaction payload
  | GetAccount jsval
  | SignMessage jsval jsval

text \<open>What \<^verbatim>\<open>checkRollbacks\<close> writes to the logger: a warning or an info line.\<close>

datatype rollback_log =
    ThreateningRollback int int
  | HarmlessRollback int int

text \<open>
  \<^verbatim>\<open>checkRollbacks\<close>: the log lines written, the wrapper afterwards, and the
  epoch returned (or the rejection of the epoch query, which leaves the wrapper as
  it was).
\<close>

definition checkRollbacks ::
    "conflux_wrapper \<Rightarrow> conflux \<Rightarrow> rollback_log list \<times> conflux_wrapper \<times> int outcome" where
  "checkRollbacks w c =
     (case getEpochNumber c (Some (epochLabel w)) of
        Throws e \<Rightarrow> ([], w, Throws e)
      | Returns epoch \<Rightarrow>
          ((if epoch < lastKnownEpochNumber w then
              (if epoch \<le> lastKnownEpochNumber w - interleaveEpochs w
               then [ThreateningRollback (lastKnownEpochNumber w) epoch]
               else [HarmlessRollback (lastKnownEpochNumber w) epoch])
            else []),
           w\<lparr>lastKnownEpochNumber := epoch\<rparr>,
           Returns epoch))"

definition createEthBlockFilter :: "string outcome" where
  "createEthBlockFilter = Returns ''0x1''"

text \<open>
  \<^verbatim>\<open>getAccount\<close> calls \<^verbatim>\<open>this.conflux.getAccount(address)\<close> and drops what
  it gets: the body has no \<^verbatim>\<open>return\<close>, so the method evaluates to
  \<^verbatim>\<open>undefined\<close>.
\<close>

definition getAccount :: "conflux \<Rightarrow> jsval \<Rightarrow> conflux_call list \<times> jsval" where
  "getAccount c address = ([GetAccount address], VUndefined)"

definition getAccounts :: "conflux \<Rightarrow> string list" where
  "getAccounts c = wallet c"

definition unsupported_filter :: "string \<Rightarrow> jsval" where
  "unsupported_filter fid =
     VObj [(''reason'', VStr (''Unsupported filter '' @ fid)),
           (''body'', VObj [(''code'', VNum (- 32500)),
                            (''message'', VStr (''Unsupported filter '' @ fid))])]"

definition getEthFilterChanges :: "conflux \<Rightarrow> string \<Rightarrow> conflux_call list \<times> jsval outcome" where
  "getEthFilterChanges c fid =
     (if fid = ''0x1''
      then ([GetEpochNumber (Some ''latest_state'')],
            (case getEpochNumber c (Some ''latest_state'') of
               Throws e \<Rightarrow> Throws e
             | Returns epoch \<Rightarrow> Returns (VNum epoch)))
      else ([], Throws (unsupported_filter fid)))"

text \<open>
  The failure thrown when no key is held for an address. The Reef wrapper's
  \<^verbatim>\<open>getSignerFromEvmAddress\<close> throws the same object.
\<close>

definition no_signing_key :: "string \<Rightarrow> jsval" where
  "no_signing_key address =
     VObj [(''reason'', VStr (''No private key available as to sign messages from '' @ [CHR 0x27] @ address @ [CHR 0x27])),
           (''body'', VObj [(''error'', VObj
              [(''code'', VNum (- 32000)),
               (''message'', VStr (''No private key available as to sign messages from '' @ [CHR 0x27] @ address @ [CHR 0x27]))])])]"

definition array_includes :: "string list \<Rightarrow> jsval \<Rightarrow> bool" where
  "array_includes xs v = (case v of VStr s \<Rightarrow> s \<in> set xs | _ \<Rightarrow> False)"

text \<open>
  \<^verbatim>\<open>processEthSignMessage\<close>. Both branches build a template literal (the log
  line of the message, the reason naming the address), which throws a
  \<^verbatim>\<open>TypeError\<close> for a value that cannot be converted to a string.
\<close>

definition processEthSignMessage ::
    "conflux \<Rightarrow> jsval \<Rightarrow> jsval \<Rightarrow> conflux_call list \<times> jsval outcome" where
  "processEthSignMessage c address message =
     (if array_includes (getAccounts c) address then
        (case to_string message of
           None \<Rightarrow> ([], Throws (TypeError ''Cannot convert object to primitive value''))
         | Some m \<Rightarrow>
             (case getAccount c address of
                (calls, account) \<Rightarrow>
                  if nullish account then (calls, Returns VUndefined)
                  else (calls @ [SignMessage account message], signMessage c account message)))
      else
        (case to_string address of
           None \<Rightarrow> ([], Throws (TypeError ''Cannot convert object to primitive value''))
         | Some a \<Rightarrow> ([], Throws (no_signing_key a))))"

text \<open>
  \<^verbatim>\<open>to0x\<close>: \<^verbatim>\<open>value.toString(16)\<close>, with \<^verbatim>\<open>0x\<close> put in front unless it
  is there already. Reading \<^verbatim>\<open>toString\<close> of \<^verbatim>\<open>undefined\<close> or
  \<^verbatim>\<open>null\<close> throws.
\<close>

definition to_string16 :: "jsval \<Rightarrow> string option" where
  "to_string16 v = (case v of VNum n \<Rightarrow> Some (hex_int n) | _ \<Rightarrow> to_string v)"

definition to0x :: "jsval \<Rightarrow> string outcome" where
  "to0x v =
     (if nullish v then Throws (TypeError ''Cannot read properties of undefined (reading toString)'')
      else
        (case to_string16 v of
           None \<Rightarrow> Throws (TypeError ''value.toString is not a function'')
         | Some str \<Rightarrow> Returns (if take 2 str = ''0x'' then str else ''0x'' @ str)))"

definition gas_price_exceeded :: "int \<Rightarrow> int \<Rightarrow> jsval" where
  "gas_price_exceeded estimate threshold =
     VObj [(''reason'', VStr (''Estimated gas price exceeds threshold ('' @ dec_int estimate
                              @ '' > '' @ dec_int threshold @ '')'')),
           (''body'', VObj [(''error'', VObj
              [(''code'', VNum (- 32099)),
               (''message'', VStr (''Estimated gas price exceeds threshold ('' @ dec_int estimate
                                   @ '' > '' @ dec_int threshold @ '')''))])])]"

text \<open>
  The first step of \<^verbatim>\<open>processTransaction\<close> (the \<^verbatim>\<open>if (this.estimateGasPrice)\<close>
  statement): the gas price to use, or the failure thrown. The oracle's answer and
  the ceiling are turned into \<^verbatim>\<open>BigInt\<close>s through their decimal text, compared,
  and the price is then rebuilt from the decimal text with a \<^verbatim>\<open>0\<close> appended.
\<close>

definition choose_gas_price ::
    "conflux_wrapper \<Rightarrow> conflux \<Rightarrow> transaction \<Rightarrow> conflux_call list \<times> jsval outcome" where
  "choose_gas_price w c params =
     (if estimateGasPrice w then
        (case getGasPrice c of
           Throws e \<Rightarrow> ([GetGasPrice], Throws e)
         | Returns price \<Rightarrow>
             (case BigInt (dec_int price) of
                None \<Rightarrow> ([GetGasPrice], Throws (SyntaxError ''Cannot convert to BigInt''))
              | Some gasPriceBI \<Rightarrow>
                  (case BigInt (dec_int (defaultGasPrice c)) of
                     None \<Rightarrow> ([GetGasPrice], Throws (SyntaxError ''Cannot convert to BigInt''))
                   | Some threshold \<Rightarrow>
                       if gasPriceBI > threshold
                       then ([GetGasPrice], Throws (gas_price_exceeded gasPriceBI (defaultGasPrice c)))
                       else
                         (case BigInt (dec_int gasPriceBI @ ''0'') of
                            None \<Rightarrow> ([GetGasPrice], Throws (SyntaxError ''Cannot convert to BigInt''))
                          | Some tenfold \<Rightarrow> ([GetGasPrice], Returns (VStr (''0x'' @ hex_int tenfold)))))))
      else
        ([], Returns (if truthy (tx_gasPrice params) then tx_gasPrice params
                      else VStr (''0x'' @ hex_int (defaultGasPrice c)))))"

text \<open>
  The rest of \<^verbatim>\<open>processTransaction\<close>, from the default of \<^verbatim>\<open>params.from\<close> to
  the submission: the epoch and nonce queries, the \<^verbatim>\<open>options\<close> object, the cost
  estimation (whose failure is caught and replaced by the caller's gas), the
  \<^verbatim>\<open>payload\<close>, the log lines (each a template literal) and
  \<^verbatim>\<open>conflux.cfx.sendTransaction(payload)\<close>.
\<close>

definition printable :: "jsval \<Rightarrow> bool" where
  "printable v = (to_string v \<noteq> None)"

definition compose_options ::
    "conflux_wrapper \<Rightarrow> transaction \<Rightarrow> jsval \<Rightarrow> jsval \<Rightarrow> int \<Rightarrow> int \<Rightarrow> options outcome" where
  "compose_options w params sender gasPrice epoch nonce =
     (case (if truthy (tx_value params) then to_string16 (tx_value params) else Some ''0x0'') of
        None \<Rightarrow> Throws (TypeError ''params.value.toString is not a function'')
      | Some v \<Rightarrow>
          Returns \<lparr>o_from = sender, o_to = tx_to params, o_gasPrice = gasPrice, o_value = VStr v,
                   o_data = (if truthy (tx_data params) then tx_data params else VNull),
                   o_nonce = ''0x'' @ hex_int nonce,
                   o_epochHeight = ''0x'' @ hex_int epoch,
                   o_chainId = ''0x'' @ hex_int (networkId w)\<rparr>)"

definition estimate_cost :: "conflux \<Rightarrow> transaction \<Rightarrow> options \<Rightarrow> estimation outcome" where
  "estimate_cost c params opts =
     (case estimateGasAndCollateral c opts of
        Returns est \<Rightarrow> Returns est
      | Throws e \<Rightarrow>
          if printable e
          then Returns \<lparr>storageCollateralized = VNum 0, gasLimit = tx_gas params\<rparr>
          else Throws (TypeError ''Cannot convert object to primitive value''))"

definition compose_payload :: "options \<Rightarrow> estimation \<Rightarrow> payload outcome" where
  "compose_payload opts est =
     (case to0x (storageCollateralized est) of
        Throws e \<Rightarrow> Throws e
      | Returns sl \<Rightarrow>
          (case to0x (gasLimit est) of
             Throws e \<Rightarrow> Throws e
           | Returns g \<Rightarrow>
               Returns \<lparr>o_from = o_from opts, o_to = o_to opts, o_gasPrice = o_gasPrice opts,
                        o_value = o_value opts, o_data = o_data opts, o_nonce = o_nonce opts,
                        o_epochHeight = o_epochHeight opts, o_chainId = o_chainId opts,
                        storageLimit = sl, gas = g\<rparr>))"

definition payload_logged :: "payload \<Rightarrow> bool" where
  "payload_logged pl =
     list_all printable
       [o_from pl,
        (if truthy (o_to pl) then o_to pl else VStr ''(deploy)''),
        (if truthy (o_data pl) then o_data pl else VStr ''(transfer)''),
        o_gasPrice pl]"

definition compose_and_send ::
    "conflux_wrapper \<Rightarrow> conflux \<Rightarrow> transaction \<Rightarrow> jsval \<Rightarrow> conflux_call list \<times> jsval outcome" where
  "compose_and_send w c params gasPrice =
     (let sender = (if truthy (tx_from params) then tx_from params
                    else (case getAccounts c of [] \<Rightarrow> VUndefined | a # as \<Rightarrow> VStr a))
      in case getEpochNumber c None of
           Throws e \<Rightarrow> ([GetEpochNumber None], Throws e)
         | Returns epochNumber \<Rightarrow>
             (case getNextNonce c sender of
                Throws e \<Rightarrow> ([GetEpochNumber None, GetNextNonce sender], Throws e)
              | Returns nonce \<Rightarrow>
                  (case compose_options w params sender gasPrice (epochNumber - 1) nonce of
                     Throws e \<Rightarrow> ([GetEpochNumber None, GetNextNonce sender], Throws e)
                   | Returns opts \<Rightarrow>
                       (case estimate_cost c params opts of
                          Throws e \<Rightarrow>
                            ([GetEpochNumber None, GetNextNonce sender,
                              EstimateGasAndCollateral opts], Throws e)
                        | Returns est \<Rightarrow>
                            (case compose_payload opts est of
                               Throws e \<Rightarrow>
                                 ([GetEpochNumber None, GetNextNonce sender,
                                   EstimateGasAndCollateral opts], Throws e)
                             | Returns pl \<Rightarrow>
                                 if payload_logged pl
                                 then ([GetEpochNumber None, GetNextNonce sender,
                                        EstimateGasAndCollateral opts, SendTransaction pl],
                                       cfx_sendTransaction c pl)
                                 else ([GetEpochNumber None, GetNextNonce sender,
                                        EstimateGasAndCollateral opts],
                                       Throws (TypeError ''Cannot convert object to primitive value'')))))))"

definition processTransaction ::
    "conflux_wrapper \<Rightarrow> conflux \<Rightarrow> transaction \<Rightarrow> conflux_call list \<times> jsval outcome" where
  "processTransaction w c params =
     (case choose_gas_price w c params of
        (calls, Throws e) \<Rightarrow> (calls, Throws e)
      | (calls, Returns gasPrice) \<Rightarrow>
          (case compose_and_send w c params gasPrice of
             (calls', out) \<Rightarrow> (calls @ calls', out)))"

subsection \<open>Claim-chain (Reef) wallet wrapper\<close>

text \<open>
  The fields of the Reef \<^verbatim>\<open>WalletWrapper\<close>. A keyring pair and the signer bound
  to it are both named by the pair's (Substrate) address; \<^verbatim>\<open>numAddresses\<close>
  counts the iterations of the loop \<^verbatim>\<open>for (let j = 0; j < this.numAddresses; j++)\<close>.
\<close>

record reef_wrapper =
  accounts :: "string list"
  keyringPairs :: "string list"
  numAddresses :: nat
  seedPhrase :: string
  signers :: "string list"

text \<open>
  \<^verbatim>\<open>TransactionParams\<close> (every field declared \<^verbatim>\<open>string\<close>; \<open>None\<close> is a
  field left out) and the \<^verbatim>\<open>TransactionRequest\<close> composed from it, whose nonce
  may be filled with the signer's transaction count.
\<close>

record transaction_params =
  p_from :: "string option"
  p_to :: "string option"
  p_gas :: "string option"
  p_gasPrice :: "string option"
  p_value :: "string option"
  p_data :: "string option"
  p_nonce :: "string option"

record transaction_request =
  r_from :: "string option"
  r_to :: "string option"
  r_value :: "string option"
  r_data :: "string option"
  r_nonce :: jsval
  r_gasLimit :: "string option"
  r_gasPrice :: "string option"

text \<open>
  The external collaborators of the Reef wrapper (the provider, the keyring, the
  signers), each by the outcome of the call the wrapper makes.
\<close>

record reef_backend =
  isReady :: "unit outcome"
  addFromUri :: "string \<Rightarrow> string outcome"
  isClaimed :: "string \<Rightarrow> bool outcome"
  claimDefaultAccount :: "string \<Rightarrow> unit outcome"
  getAddress :: "string \<Rightarrow> string outcome"
  addKeyringPair :: "string list \<Rightarrow> unit outcome"
  getBlockNumber :: "jsval outcome"
  resolveApi :: "unit outcome"
  getTransactionCount :: "string \<Rightarrow> jsval outcome"
  signer_sendTransaction :: "string \<Rightarrow> transaction_request \<Rightarrow> jsval outcome"

datatype reef_call =
    ResolveApi
  | SignerGetAddress string
  | SignerGetTransactionCount string
  | SignerSendTransaction string transaction_request

text \<open>
  One iteration of the loop of \<^verbatim>\<open>setup\<close> for index \<open>j\<close>, and the loop over the
  remaining \<open>k\<close> indices. A rejected call ends \<^verbatim>\<open>setup\<close> there, with the
  wrapper as the earlier iterations left it.
\<close>

definition derivation_uri :: "string \<Rightarrow> nat \<Rightarrow> string" where
  "derivation_uri seed j = (if j = 0 then seed else seed @ ''//'' @ dec_nat (j - 1))"

definition claim_if_needed :: "reef_backend \<Rightarrow> string \<Rightarrow> unit outcome" where
  "claim_if_needed b pair =
     (case isClaimed b pair of
        Throws e \<Rightarrow> Throws e
      | Returns claimed \<Rightarrow>
          if claimed then Returns ()
          else
            (case claimDefaultAccount b pair of
               Throws e \<Rightarrow> Throws e
             | Returns u \<Rightarrow>
                 (case getAddress b pair of
                    Throws e \<Rightarrow> Throws e
                  | Returns a \<Rightarrow> Returns ())))"

fun setup_loop :: "reef_backend \<Rightarrow> nat \<Rightarrow> nat \<Rightarrow> reef_wrapper \<Rightarrow> reef_wrapper \<times> unit outcome" where
  "setup_loop b j 0 w = (w, Returns ())"
| "setup_loop b j (Suc k) w =
     (case addFromUri b (derivation_uri (seedPhrase w) j) of
        Throws e \<Rightarrow> (w, Throws e)
      | Returns pair \<Rightarrow>
          (case claim_if_needed b pair of
             Throws e \<Rightarrow> (w, Throws e)
           | Returns u \<Rightarrow>
               (case getAddress b pair of
                  Throws e \<Rightarrow> (w, Throws e)
                | Returns a \<Rightarrow>
                    setup_loop b (Suc j) k
                      (w\<lparr>accounts := accounts w @ [a],
                         signers := signers w @ [pair],
                         keyringPairs := keyringPairs w @ [pair]\<rparr>))))"

text \<open>
  \<^verbatim>\<open>setup\<close>: the wrapper afterwards and whether the returned promise resolved
  or rejected. The statement \<^verbatim>\<open>this.seedPhrase = ''\<close> stands after the loop.
\<close>

definition setup_wrapper :: "reef_backend \<Rightarrow> reef_wrapper \<Rightarrow> reef_wrapper \<times> unit outcome" where
  "setup_wrapper b w =
     (case isReady b of
        Throws e \<Rightarrow> (w, Throws e)
      | Returns u \<Rightarrow>
          (case setup_loop b 0 (numAddresses w) w of
             (w', Throws e) \<Rightarrow> (w', Throws e)
           | (w', Returns u') \<Rightarrow>
               (w'\<lparr>seedPhrase := []\<rparr>, addKeyringPair b (keyringPairs w'))))"

definition reef_getAccounts :: "reef_wrapper \<Rightarrow> string list" where
  "reef_getAccounts w = accounts w"

text \<open>
  \<^verbatim>\<open>String.prototype.toLowerCase\<close> on the ASCII letters (addresses are
  hexadecimal text).
\<close>

definition lower_char :: "char \<Rightarrow> char" where
  "lower_char c =
     (case map_of (zip ''ABCDEFGHIJKLMNOPQRSTUVWXYZ'' ''abcdefghijklmnopqrstuvwxyz'') c of
        Some l \<Rightarrow> l
      | None \<Rightarrow> c)"

definition toLowerCase :: "string \<Rightarrow> string" where
  "toLowerCase s = map lower_char s"

text \<open>
  \<^verbatim>\<open>getSignerFromEvmAddress\<close>: the loop over \<^verbatim>\<open>this.signers\<close>, which asks
  each signer for its address and returns the first one that matches in lower
  case, and the failure thrown after the loop.
\<close>

fun find_signer :: "reef_backend \<Rightarrow> string list \<Rightarrow> string \<Rightarrow> reef_call list \<times> string outcome" where
  "find_signer b [] evmAddress = ([], Throws (no_signing_key evmAddress))"
| "find_signer b (signer # rest) evmAddress =
     (case getAddress b signer of
        Throws e \<Rightarrow> ([SignerGetAddress signer], Throws e)
      | Returns addr \<Rightarrow>
          if toLowerCase addr = toLowerCase evmAddress
          then ([SignerGetAddress signer], Returns signer)
          else (case find_signer b rest evmAddress of
                  (calls, out) \<Rightarrow> (SignerGetAddress signer # calls, out)))"

definition getSignerFromEvmAddress ::
    "reef_backend \<Rightarrow> reef_wrapper \<Rightarrow> string \<Rightarrow> reef_call list \<times> string outcome" where
  "getSignerFromEvmAddress b w evmAddress = find_signer b (signers w) evmAddress"

definition mockCreateBlockFilter :: "string outcome" where
  "mockCreateBlockFilter = Returns ''0x1''"

definition mockGetFilterChanges :: "reef_backend \<Rightarrow> string \<Rightarrow> jsval outcome" where
  "mockGetFilterChanges b fid =
     (case getBlockNumber b of
        Throws e \<Rightarrow> Throws e
      | Returns n \<Rightarrow> Returns (VArr [n]))"

definition composeTransaction :: "transaction_params \<Rightarrow> transaction_request" where
  "composeTransaction params =
     \<lparr>r_from = p_from params, r_to = p_to params, r_value = p_value params,
      r_data = p_data params,
      r_nonce = (case p_nonce params of None \<Rightarrow> VUndefined | Some n \<Rightarrow> VStr n),
      r_gasLimit = p_gas params, r_gasPrice = p_gasPrice params\<rparr>"

text \<open>
  \<^verbatim>\<open>sendTransaction\<close>: the signer is looked up from \<^verbatim>\<open>tx.from || ''\<close>, the
  sender and a missing nonce are filled from the signer, and the signer submits.
  The result is the \<^verbatim>\<open>hash\<close> member of what the signer returns.
\<close>

definition fill_nonce ::
    "reef_backend \<Rightarrow> string \<Rightarrow> transaction_request \<Rightarrow> reef_call list \<times> transaction_request outcome" where
  "fill_nonce b signer tx =
     (if truthy (r_nonce tx) then ([], Returns tx)
      else
        (case getTransactionCount b signer of
           Throws e \<Rightarrow> ([SignerGetTransactionCount signer], Throws e)
         | Returns n \<Rightarrow> ([SignerGetTransactionCount signer], Returns (tx\<lparr>r_nonce := n\<rparr>))))"

definition submit :: "reef_backend \<Rightarrow> string \<Rightarrow> transaction_request \<Rightarrow> reef_call list \<times> jsval outcome" where
  "submit b signer tx =
     ([SignerSendTransaction signer tx],
      (case signer_sendTransaction b signer tx of
         Throws e \<Rightarrow> Throws e
       | Returns res \<Rightarrow>
           if nullish res then Throws (TypeError ''Cannot read properties of undefined (reading hash)'')
           else Returns (js_get res ''hash'')))"

definition sendTransaction ::
    "reef_backend \<Rightarrow> reef_wrapper \<Rightarrow> transaction_params \<Rightarrow> reef_call list \<times> jsval outcome" where
  "sendTransaction b w params =
     (case resolveApi b of
        Throws e \<Rightarrow> ([ResolveApi], Throws e)
      | Returns u \<Rightarrow>
          (case getSignerFromEvmAddress b w
                  (case r_from (composeTransaction params) of None \<Rightarrow> [] | Some f \<Rightarrow> f) of
             (calls, Throws e) \<Rightarrow> (ResolveApi # calls, Throws e)
           | (calls, Returns signer) \<Rightarrow>
               (case getAddress b signer of
                  Throws e \<Rightarrow> (ResolveApi # calls @ [SignerGetAddress signer], Throws e)
                | Returns a \<Rightarrow>
                    (case fill_nonce b signer ((composeTransaction params)\<lparr>r_from := Some a\<rparr>) of
                       (calls', Throws e) \<Rightarrow>
                         (ResolveApi # calls @ [SignerGetAddress signer] @ calls', Throws e)
                     | (calls', Returns tx) \<Rightarrow>
                         (case submit b signer tx of
                            (calls'', out) \<Rightarrow>
                              (ResolveApi # calls @ [SignerGetAddress signer] @ calls' @ calls'',
                               out))))))"

subsection \<open>Derived notions and sample collaborators\<close>


definition positional :: "jsval list \<Rightarrow> nat \<Rightarrow> jsval" where
  "positional args i = (if i < length args then args ! i else VUndefined)"

text \<open>
  Concrete collaborators on which the properties below are run: a Conflux node
  that answers every query (gas price \<open>price\<close>, epoch \<open>epoch\<close>), with one key in
  the wallet and a gas price ceiling of 5; a wrapper that last saw epoch 100 and
  tolerates 5 epochs; a Reef chain that answers every query, and one whose claimed
  check fails; an upstream provider that answers every method with its name.
\<close>

definition sample_conflux :: "int \<Rightarrow> int \<Rightarrow> conflux" where
  "sample_conflux price epoch =
     \<lparr>wallet = [''cfx:aaa''], defaultGasPrice = 5,
      getGasPrice = Returns price,
      getEpochNumber = (\<lambda>label. Returns epoch),
      getNextNonce = (\<lambda>a. Returns 7),
      estimateGasAndCollateral =
        (\<lambda>opts. Returns \<lparr>storageCollateralized = VNum 0, gasLimit = VNum 21000\<rparr>),
      cfx_sendTransaction = (\<lambda>pl. Returns (VStr ''0xhash'')),
      signMessage = (\<lambda>account message. Returns (VStr ''0xsignature''))\<rparr>"

definition sample_wrapper :: conflux_wrapper where
  "sample_wrapper =
     \<lparr>networkId = 1, epochLabel = ''latest_state'', estimateGasPrice = True,
      interleaveEpochs = 5, lastKnownEpochNumber = 100, alwaysSynced = False\<rparr>"

definition sample_transaction :: transaction where
  "sample_transaction =
     \<lparr>tx_from = VUndefined, tx_to = VStr ''cfx:bbb'', tx_gasPrice = VUndefined,
      tx_value = VUndefined, tx_data = VUndefined, tx_gas = VUndefined\<rparr>"

definition sample_reef :: reef_backend where
  "sample_reef =
     \<lparr>isReady = Returns (),
      addFromUri = (\<lambda>uri. Returns (''pair '' @ uri)),
      isClaimed = (\<lambda>pair. Returns True),
      claimDefaultAccount = (\<lambda>pair. Returns ()),
      getAddress = (\<lambda>pair. Returns ''0xAB''),
      addKeyringPair = (\<lambda>pairs. Returns ()),
      getBlockNumber = Returns (VNum 7),
      resolveApi = Returns (),
      getTransactionCount = (\<lambda>signer. Returns (VNum 3)),
      signer_sendTransaction = (\<lambda>signer tx. Returns (VObj [(''hash'', VStr ''0xhash'')]))\<rparr>"

definition failing_reef :: reef_backend where
  "failing_reef = sample_reef\<lparr>isClaimed := (\<lambda>pair. Throws (VStr ''network down''))\<rparr>"

definition fresh_reef_wrapper :: reef_wrapper where
  "fresh_reef_wrapper =
     \<lparr>accounts = [], keyringPairs = [], numAddresses = Suc (Suc 0),
      seedPhrase = ''secret words'', signers = []\<rparr>"

definition ready_reef_wrapper :: reef_wrapper where
  "ready_reef_wrapper =
     \<lparr>accounts = [''0xAB''], keyringPairs = [''pair secret words''], numAddresses = Suc 0,
      seedPhrase = [], signers = [''pair secret words'']\<rparr>"

definition sample_provider :: provider where
  "sample_provider = \<lparr>send = (\<lambda>m ps. Returns m), nextId = VNum 42\<rparr>"

definition sample_handlers :: handlers where
  "sample_handlers =
     \<lparr>eth_accounts = (\<lambda>args. Returns (VArr [VStr ''0xabc''])),
      eth_sendTransaction = (\<lambda>args. Returns (VStr ''0xhash'')),
      eth_sign = (\<lambda>args. Returns (VStr ''0xsignature''))\<rparr>"

definition sample_connection :: connection where
  "sample_connection = \<lparr>remoteAddress = VStr ''::1'', remotePort = VNum 50000\<rparr>"

definition sample_request :: "jsval \<Rightarrow> jsval \<Rightarrow> request" where
  "sample_request m ps = \<lparr>rq_id = VNum 1, rq_jsonrpc = VStr ''2.0'', rq_method = m, rq_params = ps\<rparr>"

definition sample_params :: "string \<Rightarrow> transaction_params" where
  "sample_params a = \<lparr>p_from = Some a, p_to = Some ''0xCD'', p_gas = None, p_gasPrice = None,
     p_value = None, p_data = None, p_nonce = None\<rparr>"

text \<open>
  A handler table whose \<^verbatim>\<open>eth_sign\<close> entry is the epoch-chain wrapper's
  \<^verbatim>\<open>processEthSignMessage\<close>, bound as the router binds it: the request's params
  in order, then the socket context.
\<close>

definition conflux_sign :: "conflux \<Rightarrow> handlers" where
  "conflux_sign c = sample_handlers
     \<lparr>eth_sign := (\<lambda>args. snd (processEthSignMessage c (positional args 0) (positional args 1)))\<rparr>"

text \<open>
  A failure as the ethers provider throws it for an HTTP error of the upstream node:
  an \<^verbatim>\<open>Error\<close> carrying a reason, a code and the text of the response body.
\<close>

definition bad_response :: jsval where
  \<open>bad_response =
     VError ''Error'' ''bad response''
       [(''reason'', VStr ''bad response''), (''code'', VStr ''SERVER_ERROR''),
        (''body'', VStr ''{"message":"rate limited"}''), (''status'', VNum 429)]\<close>

section \<open>Lemmas on numbers and JSON text\<close>

lemma digit_char_dec: "d < 10 \<Longrightarrow> is_digit (digit_char d) \<and> digit_val (digit_char d) = d"
proof -
  assume "d < 10"
  then have "d \<in> {0,1,2,3,4,5,6,7,8,9}" by auto
  then show ?thesis
    by (auto simp: digit_char_def is_digit_def digit_val_def)
qed

lemma digit_char_hex: "d < 16 \<Longrightarrow> hex_val (digit_char d) = Some d"
proof -
  assume "d < 16"
  then have "d \<in> {0, 1, 2, 3, 4, 5, 6, 7, 8, 9, 10, 11, 12, 13, 14, 15}"
    by (simp; arith)
  then show ?thesis
    by (elim insertE emptyE) (simp_all add: digit_char_def hex_val_def)
qed

lemma parse_nat_dec:
  "parse_nat acc (dec_nat n @ rest) = parse_nat (acc * 10 ^ length (dec_nat n) + n) rest"
proof (induction n arbitrary: acc rest rule: dec_nat.induct)
  case (1 n)
  show ?case
  proof (cases "n < 10")
    case True
    then show ?thesis using digit_char_dec[of n] by (subst dec_nat.simps, subst (2) dec_nat.simps) (simp add: mult.commute)
  next
    case False
    have d: "is_digit (digit_char (n mod 10))" "digit_val (digit_char (n mod 10)) = n mod 10"
      using digit_char_dec[of "n mod 10"] by simp_all
    have "parse_nat acc (dec_nat n @ rest)
        = parse_nat acc (dec_nat (n div 10) @ digit_char (n mod 10) # rest)"
      using False by (subst dec_nat.simps) simp
    also have "\<dots> = parse_nat (acc * 10 ^ length (dec_nat (n div 10)) + n div 10) (digit_char (n mod 10) # rest)"
      using "1.IH"[OF False] by simp
    also have "\<dots> = parse_nat (10 * (acc * 10 ^ length (dec_nat (n div 10)) + n div 10) + n mod 10) rest"
      using d by simp
    also have "10 * (acc * 10 ^ length (dec_nat (n div 10)) + n div 10) + n mod 10
        = acc * 10 ^ length (dec_nat n) + n"
      using False by (subst (2) dec_nat.simps) (simp add: algebra_simps)
    finally show ?thesis .
  qed
qed

lemma dec_nat_nonempty: "dec_nat n \<noteq> []"
  by (subst dec_nat.simps) simp

lemma hd_dec_nat_digit: "is_digit (hd (dec_nat n))"
proof (induction n rule: dec_nat.induct)
  case (1 n)
  show ?case
  proof (cases "n < 10")
    case True
    then show ?thesis using digit_char_dec[of n] by (subst dec_nat.simps) simp
  next
    case False
    then show ?thesis using "1.IH" dec_nat_nonempty[of "n div 10"]
      by (subst dec_nat.simps) simp
  qed
qed

lemma hd_dec_nat_zero: "hd (dec_nat n) = CHR ''0'' \<Longrightarrow> n = 0"
proof (induction n rule: dec_nat.induct)
  case (1 n)
  show ?case
  proof (cases "n < 10")
    case True
    then have "n \<in> {0, 1, 2, 3, 4, 5, 6, 7, 8, 9}"
      by (simp; arith)
    then show ?thesis using "1.prems"
      by (elim insertE emptyE) (simp_all add: digit_char_def dec_nat.simps)
  next
    case False
    then have "hd (dec_nat n) = hd (dec_nat (n div 10))"
      using dec_nat_nonempty[of "n div 10"] by (subst dec_nat.simps) simp
    then have "n div 10 = 0" using "1.IH"[OF False] "1.prems" by simp
    then show ?thesis using False by simp
  qed
qed

lemma parse_nat_stop: "rest = [] \<or> \<not> is_digit (hd rest) \<Longrightarrow> parse_nat acc rest = (acc, rest)"
  by (cases rest) auto

lemma parse_nat_dec_end:
  "rest = [] \<or> \<not> is_digit (hd rest) \<Longrightarrow> parse_nat 0 (dec_nat n @ rest) = (n, rest)"
  by (simp add: parse_nat_dec parse_nat_stop)

lemma parse_number_dec_nat:
  assumes "number_end rest"
  shows "parse_number (dec_nat n @ rest) = Some (JNum (int n), rest)"
proof -
  have ne: "dec_nat n \<noteq> []" by (rule dec_nat_nonempty)
  have dg: "is_digit (hd (dec_nat n))" by (rule hd_dec_nat_digit)
  then have nm: "hd (dec_nat n) \<noteq> CHR ''-''" by (auto simp: is_digit_def)
  have lz: "\<not> (hd (dec_nat n @ rest) = CHR ''0'' \<and> tl (dec_nat n @ rest) \<noteq> [] \<and> is_digit (hd (tl (dec_nat n @ rest))))"
  proof
    assume a: "hd (dec_nat n @ rest) = CHR ''0'' \<and> tl (dec_nat n @ rest) \<noteq> [] \<and> is_digit (hd (tl (dec_nat n @ rest)))"
    then have "n = 0" using ne hd_dec_nat_zero[of n] by simp
    then have "dec_nat n = ''0''" by (simp add: digit_char_def dec_nat.simps)
    then show False using a assms by (auto simp: number_end_def)
  qed
  have pn: "parse_nat 0 (dec_nat n @ rest) = (n, rest)"
    using assms by (intro parse_nat_dec_end) (auto simp: number_end_def)
  show ?thesis
    using ne dg nm lz pn assms
    by (auto simp: parse_number_def Let_def number_end_def)
qed

lemma parse_number_dec_int:
  assumes "number_end rest"
  shows "parse_number (dec_int i @ rest) = Some (JNum i, rest)"
proof (cases "i < 0")
  case False
  then show ?thesis using parse_number_dec_nat[OF assms, of "nat i"] by (simp add: dec_int_def)
next
  case True
  have ne: "dec_nat (nat (- i)) \<noteq> []" by (rule dec_nat_nonempty)
  have dg: "is_digit (hd (dec_nat (nat (- i))))" by (rule hd_dec_nat_digit)
  have lz: "\<not> (hd (dec_nat (nat (- i)) @ rest) = CHR ''0'' \<and> tl (dec_nat (nat (- i)) @ rest) \<noteq> [] \<and> is_digit (hd (tl (dec_nat (nat (- i)) @ rest))))"
  proof
    assume a: "hd (dec_nat (nat (- i)) @ rest) = CHR ''0'' \<and> tl (dec_nat (nat (- i)) @ rest) \<noteq> [] \<and> is_digit (hd (tl (dec_nat (nat (- i)) @ rest)))"
    then have "nat (- i) = 0" using ne hd_dec_nat_zero[of "nat (- i)"] by simp
    then show False using True by simp
  qed
  have pn: "parse_nat 0 (dec_nat (nat (- i)) @ rest) = (nat (- i), rest)"
    using assms by (intro parse_nat_dec_end) (auto simp: number_end_def)
  show ?thesis
    using True ne dg lz pn assms
    by (auto simp: parse_number_def Let_def number_end_def dec_int_def)
qed

lemma BigInt_dec_int: "BigInt (dec_int i) = Some i"
proof -
  have pn: "parse_nat 0 (dec_nat n) = (n, [])" for n
    using parse_nat_dec_end[of "[]" n] by simp
  have nm: "hd (dec_nat n) \<noteq> CHR ''-'' \<and> hd (dec_nat n) \<noteq> CHR ''+''" for n
    using hd_dec_nat_digit[of n] by (auto simp: is_digit_def)
  show ?thesis
    using pn nm dec_nat_nonempty by (auto simp: BigInt_def dec_int_def Let_def)
qed

lemma BigInt_dec_int_0: "BigInt (dec_int i @ ''0'') = Some (10 * i)"
proof -
  have z: "is_digit (CHR ''0'')" "digit_val (CHR ''0'') = 0"
    by (simp_all add: is_digit_def digit_val_def)
  have pn: "parse_nat 0 (dec_nat n @ ''0'') = (10 * n, [])" for n
    using z by (simp add: parse_nat_dec)
  have nm: "hd (dec_nat n) \<noteq> CHR ''-'' \<and> hd (dec_nat n) \<noteq> CHR ''+''" for n
    using hd_dec_nat_digit[of n] by (auto simp: is_digit_def)
  show ?thesis
    using pn nm dec_nat_nonempty by (auto simp: BigInt_def dec_int_def Let_def)
qed

lemma hex4_control:
  assumes "(of_char c :: nat) < 32"
  shows "hex4 (CHR ''0'') (CHR ''0'') (digit_char (of_char c div 16)) (digit_char (of_char c mod 16))
         = Some (of_char c)"
proof -
  have z: "hex_val (CHR ''0'') = Some 0" by (simp add: hex_val_def)
  have a: "hex_val (digit_char (of_char c div 16)) = Some (of_char c div 16)"
    using assms by (intro digit_char_hex) simp
  have b: "hex_val (digit_char (of_char c mod 16)) = Some (of_char c mod 16)"
    by (intro digit_char_hex) simp
  show ?thesis by (simp add: hex4_def z a b)
qed

lemma parse_chars_escape_char:
  "parse_chars (escape_char c @ r) = map_option (\<lambda>(s, r'). (c # s, r')) (parse_chars r)"
proof (cases "c = CHR 0x22 \<or> c = CHR 0x5C \<or> c = CHR 0x08 \<or> c = CHR 0x0C \<or> c = CHR 0x0A
    \<or> c = CHR 0x0D \<or> c = CHR 0x09")
  case True
  then show ?thesis
    by (elim disjE) (simp_all add: escape_char_def unescape_def)
next
  case False
  note nf = False
  show ?thesis
  proof (cases "(of_char c :: nat) < 32")
    case True
    have lt: "(of_char c :: nat) < 256" using True by simp
    show ?thesis
      using nf True lt hex4_control[OF True]
      by (simp add: escape_char_def)
  next
    case False
    then show ?thesis using nf by (simp add: escape_char_def)
  qed
qed

lemma parse_chars_escape: "parse_chars (escape s @ CHR 0x22 # rest) = Some (s, rest)"
  by (induction s) (simp_all add: parse_chars_escape_char)

lemma parse_chars_quote: "parse_chars (tl (quote s) @ rest) = Some (s, rest)"
  by (simp add: quote_def parse_chars_escape)

lemma value_start_not:
  "value_start c \<Longrightarrow> \<not> is_ws c \<and> c \<noteq> CHR '']'' \<and> c \<noteq> CHR ''}'' \<and> c \<noteq> CHR '','' \<and> c \<noteq> CHR '':''"
  by (auto simp: value_start_def is_ws_def is_digit_def)

lemma dec_int_start: "\<exists>c cs. dec_int i = c # cs \<and> (c = CHR ''-'' \<or> is_digit c)"
proof (cases "i < 0")
  case True
  then show ?thesis by (simp add: dec_int_def)
next
  case False
  obtain c cs where "dec_nat (nat i) = c # cs"
    using dec_nat_nonempty[of "nat i"] by (cases "dec_nat (nat i)") auto
  moreover from this have "is_digit c" using hd_dec_nat_digit[of "nat i"] by simp
  ultimately show ?thesis using False by (simp add: dec_int_def)
qed

lemma value_start_chars:
  "value_start (CHR ''n'')" "value_start (CHR ''t'')" "value_start (CHR ''f'')"
  "value_start (CHR ''['')" "value_start (CHR ''{'')" "value_start (CHR 0x22)"
  "value_start (CHR ''-'')" "is_digit c \<Longrightarrow> value_start c"
  by (simp_all add: value_start_def)

lemma print_json_start: "\<exists>c cs. print_json j = c # cs \<and> value_start c"
proof (cases j)
  case (JNum i)
  then show ?thesis using dec_int_start[of i] value_start_chars(7,8) by auto
next
  case (JBool b)
  then show ?thesis using value_start_chars(2,3) by (cases b) simp_all
qed (simp_all add: value_start_chars quote_def)

lemma skip_ws_start: "value_start c \<Longrightarrow> skip_ws (c # cs) = c # cs"
  using value_start_not by simp

lemma skip_ws_print_json: "skip_ws (print_json j @ rest) = print_json j @ rest"
  using print_json_start[of j] skip_ws_start by fastforce

lemma number_end_delims:
  "number_end (CHR '']'' # r)" "number_end (CHR ''}'' # r)" "number_end (CHR '','' # r)" "number_end []"
  by (simp_all add: number_end_def is_digit_def)

lemma number_start_other:
  "c = CHR ''-'' \<or> is_digit c \<Longrightarrow>
     \<not> is_ws c \<and> c \<noteq> CHR ''n'' \<and> c \<noteq> CHR ''t'' \<and> c \<noteq> CHR ''f'' \<and> c \<noteq> CHR 0x22
       \<and> c \<noteq> CHR ''['' \<and> c \<noteq> CHR ''{''"
  by (auto simp: is_digit_def is_ws_def)

lemma parse_value_number:
  "\<not> is_ws c \<and> c \<noteq> CHR ''n'' \<and> c \<noteq> CHR ''t'' \<and> c \<noteq> CHR ''f'' \<and> c \<noteq> CHR 0x22
       \<and> c \<noteq> CHR ''['' \<and> c \<noteq> CHR ''{''
   \<Longrightarrow> parse_value (Suc n) (c # cs) = parse_number (c # cs)"
  by simp

lemma parse_value_scalar:
  assumes "number_end rest"
  shows "parse_value (Suc n) (print_json JNull @ rest) = Some (JNull, rest)"
    and "parse_value (Suc n) (print_json (JBool b) @ rest) = Some (JBool b, rest)"
    and "parse_value (Suc n) (print_json (JStr s) @ rest) = Some (JStr s, rest)"
    and "parse_value (Suc n) (print_json (JNum i) @ rest) = Some (JNum i, rest)"
proof -
  show "parse_value (Suc n) (print_json JNull @ rest) = Some (JNull, rest)"
    by (simp add: is_ws_def parse_literal_def)
  show "parse_value (Suc n) (print_json (JBool b) @ rest) = Some (JBool b, rest)"
    by (simp add: is_ws_def parse_literal_def)
  show "parse_value (Suc n) (print_json (JStr s) @ rest) = Some (JStr s, rest)"
    by (simp add: is_ws_def quote_def parse_chars_escape)
  obtain c cs where d: "dec_int i = c # cs" and c: "c = CHR ''-'' \<or> is_digit c"
    using dec_int_start[of i] by blast
  have "parse_value (Suc n) ((c # cs) @ rest) = parse_number ((c # cs) @ rest)"
    using parse_value_number[OF number_start_other[OF c]] by simp
  then show "parse_value (Suc n) (print_json (JNum i) @ rest) = Some (JNum i, rest)"
    using parse_number_dec_int[OF assms, of i] d by simp
qed

lemma roundtrip_aux:
  "(\<forall>n rest. length (print_json j) < n \<longrightarrow> number_end rest \<longrightarrow>
       parse_value n (print_json j @ rest) = Some (j, rest))"
  "(xs \<noteq> [] \<longrightarrow> (\<forall>n rest. length (print_elems xs) + 1 < n \<longrightarrow>
       parse_elems n (print_elems xs @ CHR '']'' # rest) = Some (xs, rest)))"
  "(kvs \<noteq> [] \<longrightarrow> (\<forall>n rest. length (print_members kvs) + 1 < n \<longrightarrow>
       parse_members n (print_members kvs @ CHR ''}'' # rest) = Some (kvs, rest)))"
proof (induction j and xs and kvs rule: print_json_print_elems_print_members.induct)
  case 1
  show ?case
  proof (intro allI impI)
    fix n rest assume "length (print_json JNull) < n" "number_end rest"
    then show "parse_value n (print_json JNull @ rest) = Some (JNull, rest)"
      using parse_value_scalar(1)[of rest "n - 1"] by (cases n) simp_all
  qed
next
  case (2 b)
  show ?case
  proof (intro allI impI)
    fix n rest assume "length (print_json (JBool b)) < n" "number_end rest"
    then show "parse_value n (print_json (JBool b) @ rest) = Some (JBool b, rest)"
      using parse_value_scalar(2)[of rest "n - 1" b] by (cases n) simp_all
  qed
next
  case (3 i)
  show ?case
  proof (intro allI impI)
    fix n rest assume "length (print_json (JNum i)) < n" "number_end rest"
    then show "parse_value n (print_json (JNum i) @ rest) = Some (JNum i, rest)"
      using parse_value_scalar(4)[of rest "n - 1" i] by (cases n) simp_all
  qed
next
  case (4 s)
  show ?case
  proof (intro allI impI)
    fix n rest assume "length (print_json (JStr s)) < n" "number_end rest"
    then show "parse_value n (print_json (JStr s) @ rest) = Some (JStr s, rest)"
      using parse_value_scalar(3)[of rest "n - 1" s] by (cases n) simp_all
  qed
next
  case (5 xs)
  show ?case
  proof (intro allI impI)
    fix n rest assume len: "length (print_json (JArr xs)) < n" and "number_end rest"
    then obtain m where n: "n = Suc m" by (cases n) auto
    show "parse_value n (print_json (JArr xs) @ rest) = Some (JArr xs, rest)"
    proof (cases xs)
      case Nil
      then show ?thesis using n by (simp add: is_ws_def)
    next
      case (Cons y ys)
      obtain c cs where st: "print_json y = c # cs" "value_start c"
        using print_json_start[of y] by blast
      have hd: "skip_ws (print_elems xs @ CHR '']'' # rest) = print_elems xs @ CHR '']'' # rest"
        "hd (print_elems xs @ CHR '']'' # rest) = c"
        using st Cons skip_ws_start[OF st(2)] by (cases ys; simp)+
      have "length (print_elems xs) + 1 < m" using len n by simp
      then have "parse_elems m (print_elems xs @ CHR '']'' # rest) = Some (xs, rest)"
        using 5 Cons by simp
      then show ?thesis using n hd value_start_not[OF st(2)] by (simp add: is_ws_def)
    qed
  qed
next
  case (6 kvs)
  show ?case
  proof (intro allI impI)
    fix n rest assume len: "length (print_json (JObj kvs)) < n" and "number_end rest"
    then obtain m where n: "n = Suc m" by (cases n) auto
    show "parse_value n (print_json (JObj kvs) @ rest) = Some (JObj kvs, rest)"
    proof (cases kvs)
      case Nil
      then show ?thesis using n by (simp add: is_ws_def)
    next
      case (Cons kv kvs')
      obtain k v where kv: "kv = (k, v)" by (cases kv)
      have hd: "skip_ws (print_members kvs @ CHR ''}'' # rest) = print_members kvs @ CHR ''}'' # rest"
        "hd (print_members kvs @ CHR ''}'' # rest) = CHR 0x22"
        using Cons kv by (cases kvs'; simp add: quote_def is_ws_def)+
      have "length (print_members kvs) + 1 < m" using len n by simp
      then have "parse_members m (print_members kvs @ CHR ''}'' # rest) = Some (kvs, rest)"
        using 6 Cons by simp
      then show ?thesis using n hd by (simp add: is_ws_def)
    qed
  qed
next
  case 7
  show ?case by simp
next
  case (8 x)
  show ?case
  proof (intro allI impI)
    fix n rest assume len: "length (print_elems [x]) + 1 < n"
    then obtain m where n: "n = Suc m" by (cases n) auto
    have "parse_value m (print_json x @ CHR '']'' # rest) = Some (x, CHR '']'' # rest)"
      using 8 len n number_end_delims(1) by simp
    then show "parse_elems n (print_elems [x] @ CHR '']'' # rest) = Some ([x], rest)"
      using n by (simp add: is_ws_def)
  qed
next
  case (9 x y ys)
  show ?case
  proof (intro allI impI)
    fix n rest assume len: "length (print_elems (x # y # ys)) + 1 < n"
    then obtain m where n: "n = Suc m" by (cases n) auto
    have "parse_value m (print_json x @ CHR '','' # print_elems (y # ys) @ CHR '']'' # rest)
        = Some (x, CHR '','' # print_elems (y # ys) @ CHR '']'' # rest)"
      using 9(1) len n number_end_delims(3) by simp
    moreover have "parse_elems m (print_elems (y # ys) @ CHR '']'' # rest) = Some (y # ys, rest)"
      using 9(2) len n by simp
    ultimately show "parse_elems n (print_elems (x # y # ys) @ CHR '']'' # rest) = Some (x # y # ys, rest)"
      using n by (simp add: is_ws_def)
  qed
next
  case 10
  show ?case by simp
next
  case (11 k v)
  show ?case
  proof (intro allI impI)
    fix n rest assume len: "length (print_members [(k, v)]) + 1 < n"
    then obtain m where n: "n = Suc m" by (cases n) auto
    have "parse_value m (print_json v @ CHR ''}'' # rest) = Some (v, CHR ''}'' # rest)"
      using 11 len n number_end_delims(2) by simp
    then show "parse_members n (print_members [(k, v)] @ CHR ''}'' # rest) = Some ([(k, v)], rest)"
      using n by (simp add: is_ws_def quote_def parse_chars_escape)
  qed
next
  case (12 k v kv kvs)
  show ?case
  proof (intro allI impI)
    fix n rest assume len: "length (print_members ((k, v) # kv # kvs)) + 1 < n"
    then obtain m where n: "n = Suc m" by (cases n) auto
    have "parse_value m (print_json v @ CHR '','' # print_members (kv # kvs) @ CHR ''}'' # rest)
        = Some (v, CHR '','' # print_members (kv # kvs) @ CHR ''}'' # rest)"
      using 12(1) len n number_end_delims(3) by simp
    moreover have "parse_members m (print_members (kv # kvs) @ CHR ''}'' # rest) = Some (kv # kvs, rest)"
      using 12(2) len n by simp
    ultimately show "parse_members n (print_members ((k, v) # kv # kvs) @ CHR ''}'' # rest)
        = Some ((k, v) # kv # kvs, rest)"
      using n by (simp add: is_ws_def quote_def parse_chars_escape)
  qed
qed

lemma JSON_parse_print: "JSON_parse (print_json j) = Some (of_json j)"
proof -
  have "parse_value (Suc (length (print_json j))) (print_json j @ []) = Some (j, [])"
    using roundtrip_aux(1)[of j] number_end_delims(4) by blast
  then show ?thesis by (simp add: JSON_parse_def del: parse_value.simps)
qed

section \<open>Properties\<close>

subsection \<open>Rollback detection\<close>

text \<open>
  C4. On a rollback check that observes epoch \<open>e\<close>: when \<open>e\<close> is below the last
  known epoch, the observation is logged as threatening exactly when
  \<open>e \<le> lastKnownEpoch - interleaveWindow\<close> and as harmless otherwise. In every
  case the last known epoch becomes \<open>e\<close> and the check returns \<open>e\<close> to its
  caller, so the call goes on.
\<close>

theorem checkRollbacks_classifies:
  assumes "getEpochNumber c (Some (epochLabel w)) = Returns e"
  shows "(e < lastKnownEpochNumber w \<longrightarrow>
            (fst (checkRollbacks w c) = [ThreateningRollback (lastKnownEpochNumber w) e]
               \<longleftrightarrow> e \<le> lastKnownEpochNumber w - interleaveEpochs w)
          \<and> (fst (checkRollbacks w c) = [HarmlessRollback (lastKnownEpochNumber w) e]
               \<longleftrightarrow> \<not> e \<le> lastKnownEpochNumber w - interleaveEpochs w))
       \<and> (\<not> e < lastKnownEpochNumber w \<longrightarrow> fst (checkRollbacks w c) = [])
       \<and> fst (snd (checkRollbacks w c)) = w\<lparr>lastKnownEpochNumber := e\<rparr>
       \<and> snd (snd (checkRollbacks w c)) = Returns e"
  using assms by (simp add: checkRollbacks_def)

theorem checkRollbacks_classifies_witness:
  "getEpochNumber (sample_conflux 1 96) (Some (epochLabel sample_wrapper)) = Returns 96
   \<and> fst (checkRollbacks sample_wrapper (sample_conflux 1 96)) = [HarmlessRollback 100 96]
   \<and> fst (checkRollbacks sample_wrapper (sample_conflux 1 94)) = [ThreateningRollback 100 94]
   \<and> lastKnownEpochNumber (fst (snd (checkRollbacks sample_wrapper (sample_conflux 1 94)))) = 94
   \<and> snd (snd (checkRollbacks sample_wrapper (sample_conflux 1 94))) = Returns 94"
  using checkRollbacks_classifies [of "sample_conflux 1 96" sample_wrapper 96]
        checkRollbacks_classifies [of "sample_conflux 1 94" sample_wrapper 94]
  by (simp add: sample_conflux_def sample_wrapper_def)

subsection \<open>Block filter mocks\<close>

text \<open>
  C8, as amended. On both wrappers the block filter created has the constant id
  \<^verbatim>\<open>0x1\<close>. On the epoch-chain wrapper, polling that id returns the epoch number
  the node reports for \<^verbatim>\<open>latest_state\<close>, and polling any other id fails with
  the unsupported-filter failure (code -32500, the reason naming the id), without
  a call to the node. On the claim-chain wrapper the mock does not look at the id:
  for every id it returns a one-element list holding the block number the
  provider reports.
\<close>

theorem filter_mocks:
  "createEthBlockFilter = Returns ''0x1''
   \<and> mockCreateBlockFilter = Returns ''0x1''
   \<and> (getEpochNumber c (Some ''latest_state'') = Returns n \<longrightarrow>
        snd (getEthFilterChanges c ''0x1'') = Returns (VNum n))
   \<and> (fid \<noteq> ''0x1'' \<longrightarrow>
        getEthFilterChanges c fid = ([], Throws (unsupported_filter fid))
        \<and> js_get (js_get (unsupported_filter fid) ''body'') ''code'' = VNum (- 32500)
        \<and> js_get (unsupported_filter fid) ''reason'' = VStr (''Unsupported filter '' @ fid))
   \<and> (getBlockNumber b = Returns m \<longrightarrow> mockGetFilterChanges b fid = Returns (VArr [m]))"
  by (simp add: createEthBlockFilter_def mockCreateBlockFilter_def getEthFilterChanges_def
      mockGetFilterChanges_def unsupported_filter_def js_get_def own_property_def)

theorem filter_mocks_witness:
  "getEpochNumber (sample_conflux 1 96) (Some ''latest_state'') = Returns 96
   \<and> snd (getEthFilterChanges (sample_conflux 1 96) ''0x1'') = Returns (VNum 96)
   \<and> ''0x2'' \<noteq> ''0x1''
   \<and> getEthFilterChanges (sample_conflux 1 96) ''0x2'' = ([], Throws (unsupported_filter ''0x2''))
   \<and> getBlockNumber sample_reef = Returns (VNum 7)
   \<and> mockGetFilterChanges sample_reef ''0x2'' = Returns (VArr [VNum 7])"
  using filter_mocks [of "sample_conflux 1 96" 96 "''0x2''" sample_reef "VNum 7"]
  by (simp add: sample_conflux_def sample_reef_def)

text \<open>
  The claim as stated fails on the claim-chain wrapper: polled with the id
  \<^verbatim>\<open>0x2\<close>, which no filter has, the mock returns the block number.
\<close>

theorem mockGetFilterChanges_counterexample:
  "mockGetFilterChanges sample_reef ''0x2'' = Returns (VArr [VNum 7])"
  by (simp add: mockGetFilterChanges_def sample_reef_def)

subsection \<open>Seed phrase\<close>

text \<open>
  C7, as amended. When the setup operation of the claim-chain wrapper completes
  (its promise resolves), the seed phrase field holds the empty string: the raw
  seed phrase is no longer in the wrapper's state.
\<close>

theorem setup_erases_seed_phrase:
  "snd (setup_wrapper b w) = Returns u \<Longrightarrow> seedPhrase (fst (setup_wrapper b w)) = []"
  by (auto simp: setup_wrapper_def split: outcome.splits prod.splits)

lemma setup_sample:
  "setup_wrapper sample_reef fresh_reef_wrapper =
     (\<lparr>accounts = [''0xAB'', ''0xAB''],
       keyringPairs = [''pair secret words'', ''pair secret words//0''],
       numAddresses = Suc (Suc 0), seedPhrase = [],
       signers = [''pair secret words'', ''pair secret words//0'']\<rparr>, Returns ())"
  by (simp add: setup_wrapper_def sample_reef_def fresh_reef_wrapper_def claim_if_needed_def
      derivation_uri_def dec_nat.simps digit_char_def)

theorem setup_erases_seed_phrase_witness:
  "snd (setup_wrapper sample_reef fresh_reef_wrapper) = Returns ()
   \<and> seedPhrase (fst (setup_wrapper sample_reef fresh_reef_wrapper)) = []"
  using setup_erases_seed_phrase [of sample_reef fresh_reef_wrapper "()"] setup_sample
  by simp

text \<open>
  The claim as stated fails on a failure path: when the claimed check of the first
  derived identity is rejected, setup rejects before it reaches the statement that
  clears the field, and the wrapper still holds the seed phrase.
\<close>

theorem setup_failure_counterexample:
  "setup_wrapper failing_reef fresh_reef_wrapper
     = (fresh_reef_wrapper, Throws (VStr ''network down''))
   \<and> seedPhrase (fst (setup_wrapper failing_reef fresh_reef_wrapper)) = ''secret words''"
  by (simp add: setup_wrapper_def failing_reef_def sample_reef_def fresh_reef_wrapper_def
      claim_if_needed_def derivation_uri_def)

subsection \<open>Signing for an address with no key\<close>

text \<open>
  The addresses \<^verbatim>\<open>setup\<close> records are those its signers reported: when the
  signers answer the same way later, the account list and the signers' addresses
  agree.
\<close>

lemma find_signer_none:
  assumes "map (getAddress b) ss = map Returns addrs"
      and "toLowerCase a \<notin> toLowerCase ` set addrs"
  shows "find_signer b ss a = (map SignerGetAddress ss, Throws (no_signing_key a))"
  using assms
proof (induction ss arbitrary: addrs)
  case Nil
  then show ?case by simp
next
  case (Cons s ss)
  then obtain x xs where ad: "addrs = x # xs" by (cases addrs) auto
  with Cons.prems have g: "getAddress b s = Returns x" and m: "map (getAddress b) ss = map Returns xs"
    and n: "toLowerCase x \<noteq> toLowerCase a" and r: "toLowerCase a \<notin> toLowerCase ` set xs"
    by auto
  show ?case using Cons.IH[OF m r] g n by simp
qed

lemma setup_loop_records_addresses:
  assumes "map (getAddress b) (signers w) = map Returns (accounts w)"
  shows "map (getAddress b) (signers (fst (setup_loop b j k w)))
           = map Returns (accounts (fst (setup_loop b j k w)))"
  using assms
proof (induction k arbitrary: j w)
  case 0
  then show ?case by simp
next
  case (Suc k)
  show ?case
  proof (cases "addFromUri b (derivation_uri (seedPhrase w) j)")
    case (Throws e)
    then show ?thesis using Suc.prems by simp
  next
    case (Returns pair)
    note pr = Returns
    show ?thesis
    proof (cases "claim_if_needed b pair")
      case (Throws e)
      then show ?thesis using Suc.prems pr by simp
    next
      case (Returns u)
      note cl = Returns
      show ?thesis
      proof (cases "getAddress b pair")
        case (Throws e)
        then show ?thesis using Suc.prems pr cl by simp
      next
        case (Returns a)
        have "map (getAddress b) (signers (w\<lparr>accounts := accounts w @ [a],
                 signers := signers w @ [pair], keyringPairs := keyringPairs w @ [pair]\<rparr>))
            = map Returns (accounts (w\<lparr>accounts := accounts w @ [a],
                 signers := signers w @ [pair], keyringPairs := keyringPairs w @ [pair]\<rparr>))"
          using Suc.prems Returns by simp
        from Suc.IH[OF this] show ?thesis using pr cl Returns by simp
      qed
    qed
  qed
qed

lemma setup_records_addresses:
  assumes "map (getAddress b) (signers w) = map Returns (accounts w)"
  shows "map (getAddress b) (signers (fst (setup_wrapper b w)))
           = map Returns (reef_getAccounts (fst (setup_wrapper b w)))"
  using assms setup_loop_records_addresses[OF assms, of 0 "numAddresses w"]
  by (auto simp: setup_wrapper_def reef_getAccounts_def split: outcome.splits prod.splits)

text \<open>
  C5, as amended. On the epoch-chain wrapper, signing a message for an address
  that is not in \<^verbatim>\<open>getAccounts()\<close> fails with the no-signing-key failure
  (code -32000, the reason naming the address), and no call is made to the node.
  On the claim-chain wrapper the signer lookup compares addresses in lower case:
  for an address that differs from every account also when letter case is
  ignored, the lookup fails with the same failure after asking each signer for
  its address, and \<^verbatim>\<open>sendTransaction\<close> from that address (once the API handle
  has resolved) fails with it without asking any signer for a nonce or a
  submission.
\<close>

theorem no_signing_key_for_unknown_address:
  "(a \<notin> set (getAccounts c) \<longrightarrow>
      processEthSignMessage c (VStr a) message = ([], Throws (no_signing_key a)))
   \<and> (map (getAddress b) (signers w) = map Returns (reef_getAccounts w)
        \<and> toLowerCase a \<notin> toLowerCase ` set (reef_getAccounts w) \<longrightarrow>
        getSignerFromEvmAddress b w a
          = (map SignerGetAddress (signers w), Throws (no_signing_key a))
        \<and> (p_from params = Some a \<and> resolveApi b = Returns u \<longrightarrow>
             sendTransaction b w params
               = (ResolveApi # map SignerGetAddress (signers w), Throws (no_signing_key a))))
   \<and> js_get (js_get (js_get (no_signing_key a) ''body'') ''error'') ''code'' = VNum (- 32000)
   \<and> js_get (no_signing_key a) ''reason''
       = VStr (''No private key available as to sign messages from '' @ [CHR 0x27] @ a @ [CHR 0x27])"
proof (intro conjI impI)
  assume "a \<notin> set (getAccounts c)"
  then show "processEthSignMessage c (VStr a) message = ([], Throws (no_signing_key a))"
    by (simp add: processEthSignMessage_def array_includes_def)
next
  assume h: "map (getAddress b) (signers w) = map Returns (reef_getAccounts w)
        \<and> toLowerCase a \<notin> toLowerCase ` set (reef_getAccounts w)"
  then show f: "getSignerFromEvmAddress b w a
          = (map SignerGetAddress (signers w), Throws (no_signing_key a))"
    using find_signer_none[of b "signers w" "reef_getAccounts w" a]
    by (simp add: getSignerFromEvmAddress_def)
  assume "p_from params = Some a \<and> resolveApi b = Returns u"
  then show "sendTransaction b w params
               = (ResolveApi # map SignerGetAddress (signers w), Throws (no_signing_key a))"
    using f by (simp add: sendTransaction_def composeTransaction_def)
next
  show "js_get (js_get (js_get (no_signing_key a) ''body'') ''error'') ''code'' = VNum (- 32000)"
    by (simp add: no_signing_key_def js_get_def own_property_def)
  show "js_get (no_signing_key a) ''reason''
       = VStr (''No private key available as to sign messages from '' @ [CHR 0x27] @ a @ [CHR 0x27])"
    by (simp add: no_signing_key_def js_get_def own_property_def)
qed

lemma lower_samples:
  "toLowerCase ''0xAB'' = ''0xab''" "toLowerCase ''0xab'' = ''0xab''" "toLowerCase ''0xEF'' = ''0xef''"
  by (simp_all add: toLowerCase_def lower_char_def)

theorem no_signing_key_for_unknown_address_witness:
  "''cfx:zzz'' \<notin> set (getAccounts (sample_conflux 1 96))
   \<and> processEthSignMessage (sample_conflux 1 96) (VStr ''cfx:zzz'') (VStr ''hello'')
       = ([], Throws (no_signing_key ''cfx:zzz''))
   \<and> map (getAddress sample_reef) (signers ready_reef_wrapper)
       = map Returns (reef_getAccounts ready_reef_wrapper)
   \<and> toLowerCase ''0xEF'' \<notin> toLowerCase ` set (reef_getAccounts ready_reef_wrapper)
   \<and> p_from (sample_params ''0xEF'') = Some ''0xEF'' \<and> resolveApi sample_reef = Returns ()
   \<and> sendTransaction sample_reef ready_reef_wrapper (sample_params ''0xEF'')
       = ([ResolveApi, SignerGetAddress ''pair secret words''], Throws (no_signing_key ''0xEF''))"
  using no_signing_key_for_unknown_address
          [where a = "''cfx:zzz''" and c = "sample_conflux 1 96" and message = "VStr ''hello''"]
        no_signing_key_for_unknown_address
          [where a = "''0xEF''" and b = sample_reef and w = ready_reef_wrapper
             and params = "sample_params ''0xEF''" and u = "()"]
        lower_samples
  by (simp add: sample_conflux_def getAccounts_def sample_reef_def ready_reef_wrapper_def
      reef_getAccounts_def sample_params_def)

text \<open>
  The claim as stated fails on the claim-chain wrapper: \<^verbatim>\<open>0xab\<close> is not in the
  account list, which holds \<^verbatim>\<open>0xAB\<close>, yet the lookup finds the signer and the
  transaction is submitted.
\<close>

theorem signer_lookup_ignores_case_counterexample:
  "''0xab'' \<notin> set (reef_getAccounts ready_reef_wrapper)
   \<and> getSignerFromEvmAddress sample_reef ready_reef_wrapper ''0xab''
       = ([SignerGetAddress ''pair secret words''], Returns ''pair secret words'')
   \<and> sendTransaction sample_reef ready_reef_wrapper (sample_params ''0xab'')
       = ([ResolveApi, SignerGetAddress ''pair secret words'', SignerGetAddress ''pair secret words'',
           SignerGetTransactionCount ''pair secret words'',
           SignerSendTransaction ''pair secret words''
             \<lparr>r_from = Some ''0xAB'', r_to = Some ''0xCD'', r_value = None, r_data = None,
              r_nonce = VNum 3, r_gasLimit = None, r_gasPrice = None\<rparr>],
          Returns (VStr ''0xhash''))"
  using lower_samples
  by (simp add: getSignerFromEvmAddress_def sendTransaction_def composeTransaction_def
      fill_nonce_def submit_def sample_reef_def ready_reef_wrapper_def reef_getAccounts_def
      sample_params_def truthy_def nullish_def js_get_def own_property_def)

subsection \<open>Gas price policy of the epoch-chain wrapper\<close>

lemma choose_gas_price_estimated:
  assumes "estimateGasPrice w" and "getGasPrice c = Returns p"
  shows "choose_gas_price w c params =
           (if defaultGasPrice c < p
            then ([GetGasPrice], Throws (gas_price_exceeded p (defaultGasPrice c)))
            else ([GetGasPrice], Returns (VStr (''0x'' @ hex_int (10 * p)))))"
  using assms by (simp add: choose_gas_price_def BigInt_dec_int BigInt_dec_int_0)

lemma compose_payload_gasPrice:
  "compose_payload opts est = Returns pl \<Longrightarrow> o_gasPrice pl = o_gasPrice opts"
  by (auto simp: compose_payload_def split: outcome.splits)

lemma compose_options_gasPrice:
  "compose_options w params sender g epoch nonce = Returns opts \<Longrightarrow> o_gasPrice opts = g"
  by (auto simp: compose_options_def split: option.splits)

lemma compose_and_send_gasPrice:
  assumes "SendTransaction pl \<in> set (fst (compose_and_send w c params g))"
  shows "o_gasPrice pl = g"
  using assms
  by (auto simp: compose_and_send_def Let_def
      dest!: compose_payload_gasPrice compose_options_gasPrice
      split: outcome.splits if_splits)

text \<open>
  C6. On the epoch-chain wrapper with the estimate-gas-price option enabled, when
  the oracle's estimate exceeds the configured ceiling \<^verbatim>\<open>processTransaction\<close>
  rejects with the gas-price-exceeded failure (code -32099) after the oracle query
  alone, so nothing is submitted; when it does not, the method goes on to compose
  and submit the transaction. A transaction is submitted only if the estimate
  does not exceed the ceiling.
\<close>

theorem gas_price_ceiling:
  assumes "estimateGasPrice w" and "getGasPrice c = Returns p"
  shows "(defaultGasPrice c < p \<longrightarrow>
            processTransaction w c params
              = ([GetGasPrice], Throws (gas_price_exceeded p (defaultGasPrice c))))
       \<and> (\<not> defaultGasPrice c < p \<longrightarrow>
            processTransaction w c params
              = (GetGasPrice # fst (compose_and_send w c params (VStr (''0x'' @ hex_int (10 * p)))),
                 snd (compose_and_send w c params (VStr (''0x'' @ hex_int (10 * p))))))
       \<and> (\<forall>pl. SendTransaction pl \<in> set (fst (processTransaction w c params))
              \<longrightarrow> \<not> defaultGasPrice c < p)
       \<and> js_get (js_get (js_get (gas_price_exceeded p (defaultGasPrice c)) ''body'') ''error'') ''code''
           = VNum (- 32099)"
  using choose_gas_price_estimated[OF assms, of params]
  by (auto simp: processTransaction_def gas_price_exceeded_def js_get_def own_property_def
      split: prod.splits)

lemma run_sample_5:
  "processTransaction sample_wrapper (sample_conflux 5 96) sample_transaction
     = ([GetGasPrice, GetEpochNumber None, GetNextNonce (VStr ''cfx:aaa''),
         EstimateGasAndCollateral
           \<lparr>o_from = VStr ''cfx:aaa'', o_to = VStr ''cfx:bbb'', o_gasPrice = VStr ''0x32'',
            o_value = VStr ''0x0'', o_data = VNull, o_nonce = ''0x7'', o_epochHeight = ''0x5f'',
            o_chainId = ''0x1''\<rparr>,
         SendTransaction
           \<lparr>o_from = VStr ''cfx:aaa'', o_to = VStr ''cfx:bbb'', o_gasPrice = VStr ''0x32'',
            o_value = VStr ''0x0'', o_data = VNull, o_nonce = ''0x7'', o_epochHeight = ''0x5f'',
            o_chainId = ''0x1'', storageLimit = ''0x0'', gas = ''0x5208''\<rparr>],
        Returns (VStr ''0xhash''))"
  by (simp add: processTransaction_def choose_gas_price_def compose_and_send_def
      compose_options_def estimate_cost_def compose_payload_def payload_logged_def
      printable_def to0x_def to_string16_def nullish_def truthy_def getAccounts_def
      sample_wrapper_def sample_conflux_def sample_transaction_def
      BigInt_dec_int BigInt_dec_int_0 hex_int_def hex_nat.simps digit_char_def Let_def)

lemma run_sample_6:
  "processTransaction sample_wrapper (sample_conflux 6 96) sample_transaction
     = ([GetGasPrice], Throws (gas_price_exceeded 6 5))"
  by (simp add: processTransaction_def choose_gas_price_def
      sample_wrapper_def sample_conflux_def BigInt_dec_int BigInt_dec_int_0)

theorem gas_price_ceiling_witness:
  "estimateGasPrice sample_wrapper
   \<and> getGasPrice (sample_conflux 6 96) = Returns 6
   \<and> defaultGasPrice (sample_conflux 6 96) < 6
   \<and> processTransaction sample_wrapper (sample_conflux 6 96) sample_transaction
       = ([GetGasPrice], Throws (gas_price_exceeded 6 5))
   \<and> getGasPrice (sample_conflux 5 96) = Returns 5
   \<and> \<not> defaultGasPrice (sample_conflux 5 96) < 5
   \<and> (\<exists>pl. SendTransaction pl
          \<in> set (fst (processTransaction sample_wrapper (sample_conflux 5 96) sample_transaction)))"
  using gas_price_ceiling [of sample_wrapper "sample_conflux 6 96" 6 sample_transaction]
        gas_price_ceiling [of sample_wrapper "sample_conflux 5 96" 5 sample_transaction]
        run_sample_5
  by (simp add: sample_wrapper_def sample_conflux_def)

text \<open>
  C9. On the epoch-chain wrapper with gas-price self-estimation enabled, every
  transaction that \<^verbatim>\<open>processTransaction\<close> submits carries as gas price the
  hexadecimal text of ten times the oracle's estimate \<open>p\<close>, while the ceiling
  check it passed compared \<open>p\<close> itself: the submitted price can exceed the
  ceiling, by up to a factor of ten (in the run below the estimate and the ceiling
  are 5 and the submitted price is \<^verbatim>\<open>0x32\<close>, fifty).
\<close>

theorem submitted_gas_price_tenfold:
  assumes "estimateGasPrice w" and "getGasPrice c = Returns p"
      and "SendTransaction pl \<in> set (fst (processTransaction w c params))"
  shows "o_gasPrice pl = VStr (''0x'' @ hex_int (10 * p)) \<and> p \<le> defaultGasPrice c"
proof -
  have le: "p \<le> defaultGasPrice c"
    using choose_gas_price_estimated[OF assms(1,2), of params] assms(3)
    by (auto simp: processTransaction_def split: if_splits)
  then have "choose_gas_price w c params = ([GetGasPrice], Returns (VStr (''0x'' @ hex_int (10 * p))))"
    using choose_gas_price_estimated[OF assms(1,2), of params] by simp
  then have "SendTransaction pl \<in> set (fst (compose_and_send w c params (VStr (''0x'' @ hex_int (10 * p)))))"
    using assms(3) by (auto simp: processTransaction_def split: prod.splits)
  then show ?thesis using le compose_and_send_gasPrice by blast
qed

theorem submitted_gas_price_tenfold_witness:
  "estimateGasPrice sample_wrapper
   \<and> getGasPrice (sample_conflux 5 96) = Returns 5
   \<and> defaultGasPrice (sample_conflux 5 96) = 5
   \<and> SendTransaction
        \<lparr>o_from = VStr ''cfx:aaa'', o_to = VStr ''cfx:bbb'', o_gasPrice = VStr ''0x32'',
         o_value = VStr ''0x0'', o_data = VNull, o_nonce = ''0x7'', o_epochHeight = ''0x5f'',
         o_chainId = ''0x1'', storageLimit = ''0x0'', gas = ''0x5208''\<rparr>
       \<in> set (fst (processTransaction sample_wrapper (sample_conflux 5 96) sample_transaction))
   \<and> ''0x'' @ hex_int (10 * 5) = ''0x32''
   \<and> (5::int) < 10 * 5"
  using submitted_gas_price_tenfold [of sample_wrapper "sample_conflux 5 96" 5
          "\<lparr>o_from = VStr ''cfx:aaa'', o_to = VStr ''cfx:bbb'', o_gasPrice = VStr ''0x32'',
            o_value = VStr ''0x0'', o_data = VNull, o_nonce = ''0x7'', o_epochHeight = ''0x5f'',
            o_chainId = ''0x1'', storageLimit = ''0x0'', gas = ''0x5208''\<rparr>" sample_transaction]
        run_sample_5
  by (simp add: sample_wrapper_def sample_conflux_def)

subsection \<open>Signing on the epoch-chain wrapper\<close>

lemma sent_members_undefined_result:
  "''result'' \<notin> set (sent_members (VObj (header r @ [(''result'', VUndefined)])))
   \<and> ''error'' \<notin> set (sent_members (VObj (header r @ [(''result'', VUndefined)])))"
  by (simp add: sent_members_def header_def split: option.splits)

lemma route_own_handler:
  assumes "to_string (rq_method r) = Some key" and "own_handler h key = Some f"
      and "rq_params r = VArr args"
  shows "route h p builtin r socket = ([HandlerCall key (args @ [socket])], f (args @ [socket]))"
proof -
  have "key \<noteq> ''__proto__''" using assms(2) by (auto simp: own_handler_def split: if_splits)
  then show ?thesis using assms by (simp add: route_def in_handlers_def truthy_def)
qed

text \<open>
  C10. On the epoch-chain wrapper \<^verbatim>\<open>getAccount\<close> evaluates to
  \<^verbatim>\<open>undefined\<close> for every address. So for every address that is in
  \<^verbatim>\<open>getAccounts()\<close> (and every message the log line can print)
  \<^verbatim>\<open>processEthSignMessage\<close> resolves to \<^verbatim>\<open>undefined\<close>, having asked the
  SDK for the account and never for a signature; and the router, serving
  \<^verbatim>\<open>eth_sign\<close> with that method, builds a response whose \<^verbatim>\<open>result\<close> is
  \<^verbatim>\<open>undefined\<close>: the body it sends has no \<^verbatim>\<open>result\<close> member and no
  \<^verbatim>\<open>error\<close> member.
\<close>

theorem sign_message_resolves_undefined:
  "snd (getAccount c address) = VUndefined
   \<and> (a \<in> set (getAccounts c) \<and> printable message \<longrightarrow>
        processEthSignMessage c (VStr a) message = ([GetAccount (VStr a)], Returns VUndefined))
   \<and> (a \<in> set (getAccounts c) \<and> printable message
        \<and> eth_sign h = (\<lambda>args. snd (processEthSignMessage c (positional args 0) (positional args 1)))
        \<and> rq_method r = VStr ''eth_sign'' \<and> rq_params r = VArr [VStr a, message] \<longrightarrow>
        snd (initialize h p builtin conn r) = Returns (VObj (header r @ [(''result'', VUndefined)]))
        \<and> ''result'' \<notin> set (sent_members (VObj (header r @ [(''result'', VUndefined)])))
        \<and> ''error'' \<notin> set (sent_members (VObj (header r @ [(''result'', VUndefined)]))))"
proof (intro conjI impI)
  show "snd (getAccount c address) = VUndefined" by (simp add: getAccount_def)
next
  assume "a \<in> set (getAccounts c) \<and> printable message"
  then show "processEthSignMessage c (VStr a) message = ([GetAccount (VStr a)], Returns VUndefined)"
    by (auto simp: processEthSignMessage_def array_includes_def printable_def getAccount_def nullish_def)
next
  assume h: "a \<in> set (getAccounts c) \<and> printable message
        \<and> eth_sign h = (\<lambda>args. snd (processEthSignMessage c (positional args 0) (positional args 1)))
        \<and> rq_method r = VStr ''eth_sign'' \<and> rq_params r = VArr [VStr a, message]"
  then have s: "processEthSignMessage c (VStr a) message = ([GetAccount (VStr a)], Returns VUndefined)"
    by (auto simp: processEthSignMessage_def array_includes_def printable_def getAccount_def nullish_def)
  have "route h p builtin r (socket_of conn r p)
          = ([HandlerCall ''eth_sign'' ([VStr a, message] @ [socket_of conn r p])],
             eth_sign h ([VStr a, message] @ [socket_of conn r p]))"
    using h by (intro route_own_handler) (simp_all add: own_handler_def)
  then show "snd (initialize h p builtin conn r) = Returns (VObj (header r @ [(''result'', VUndefined)]))"
    using h s by (simp add: initialize_def positional_def)
next
  show "''result'' \<notin> set (sent_members (VObj (header r @ [(''result'', VUndefined)])))"
    using sent_members_undefined_result by simp
  show "''error'' \<notin> set (sent_members (VObj (header r @ [(''result'', VUndefined)])))"
    using sent_members_undefined_result by simp
qed

lemma sample_sent_body:
  \<open>sent_body (VObj (header (sample_request m ps) @ [(''result'', VUndefined)]))
     = VStr ''{"jsonrpc":"2.0","id":1}''\<close>
  by (simp add: sent_body_def JSON_stringify_def header_def sample_request_def quote_def
      escape_char_def dec_int_def dec_nat.simps digit_char_def)

theorem sign_message_resolves_undefined_witness:
  \<open>''cfx:aaa'' \<in> set (getAccounts (sample_conflux 1 96)) \<and> printable (VStr ''hello'')
   \<and> processEthSignMessage (sample_conflux 1 96) (VStr ''cfx:aaa'') (VStr ''hello'')
       = ([GetAccount (VStr ''cfx:aaa'')], Returns VUndefined)
   \<and> snd (initialize (conflux_sign (sample_conflux 1 96)) sample_provider (\<lambda>k args. Returns VNull)
             sample_connection
             (sample_request (VStr ''eth_sign'') (VArr [VStr ''cfx:aaa'', VStr ''hello''])))
       = Returns (VObj [(''jsonrpc'', VStr ''2.0''), (''id'', VNum 1), (''result'', VUndefined)])
   \<and> sent_body (VObj [(''jsonrpc'', VStr ''2.0''), (''id'', VNum 1), (''result'', VUndefined)])
       = VStr ''{"jsonrpc":"2.0","id":1}''\<close>
  using sign_message_resolves_undefined
          [where a = "''cfx:aaa''" and c = "sample_conflux 1 96" and message = "VStr ''hello''"
             and h = "conflux_sign (sample_conflux 1 96)" and p = sample_provider
             and builtin = "\<lambda>k args. Returns VNull" and conn = sample_connection
             and r = "sample_request (VStr ''eth_sign'') (VArr [VStr ''cfx:aaa'', VStr ''hello''])"]
        sample_sent_body [of "VStr ''eth_sign''" "VArr [VStr ''cfx:aaa'', VStr ''hello'']"]
  by (simp add: sample_conflux_def getAccounts_def printable_def conflux_sign_def
      sample_request_def header_def)

subsection \<open>The error normalizer\<close>

lemma truthy_not_nullish: "truthy v \<Longrightarrow> \<not> nullish v"
  by (auto simp: truthy_def nullish_def)




lemma error_response_string:
  "error_response hdr (VStr s) =
     VObj (hdr @ [(''error'',
       (case JSON_parse s of
          None \<Rightarrow> VStr invalid_json_response
        | Some parsed \<Rightarrow> if nullish parsed then VStr invalid_json_response
                         else js_get parsed ''error''))])"
  by (simp add: error_response_def is_string_def split: option.splits)





lemma normalize_code_body:
  assumes "truthy (js_get e ''code'')" and "truthy (js_get e ''body'')"
  shows "normalize hdr e = Returns (error_response hdr (js_get e ''body''))"
proof -
  have nn: "\<not> nullish e" using assms(1) by (auto simp: nullish_def js_get_def truthy_def)
  show ?thesis using assms nn by (simp add: normalize_def execution_error_def error_body_def)
qed


lemma parse_rate_limited:
  \<open>JSON_parse ''{"message":"rate limited"}'' = Some (VObj [(''message'', VStr ''rate limited'')])\<close>
proof -
  have \<open>''{"message":"rate limited"}'' = print_json (JObj [(''message'', JStr ''rate limited'')])\<close>
    by (simp add: quote_def escape_char_def)
  then show ?thesis by (simp only: JSON_parse_print) simp
qed

lemma parse_upstream_error:
  \<open>JSON_parse ''{"jsonrpc":"2.0","id":1,"error":{"code":-32000,"message":"x"}}''
     = Some (VObj [(''jsonrpc'', VStr ''2.0''), (''id'', VNum 1),
                   (''error'', VObj [(''code'', VNum (- 32000)), (''message'', VStr ''x'')])])\<close>
proof -
  have \<open>''{"jsonrpc":"2.0","id":1,"error":{"code":-32000,"message":"x"}}''
      = print_json (JObj [(''jsonrpc'', JStr ''2.0''), (''id'', JNum 1),
          (''error'', JObj [(''code'', JNum (- 32000)), (''message'', JStr ''x'')])])\<close>
    by (simp add: quote_def escape_char_def dec_int_def dec_nat.simps digit_char_def)
  then show ?thesis by (simp only: JSON_parse_print) simp
qed


lemma sent_body_header_only:
  \<open>sent_body (VObj [(''jsonrpc'', VStr ''2.0''), (''id'', VNum 1), (k, VUndefined)])
     = VStr ''{"jsonrpc":"2.0","id":1}''\<close>
  by (simp add: sent_body_def JSON_stringify_def quote_def escape_char_def dec_int_def
      dec_nat.simps digit_char_def)



text \<open>
  What does pass through unchanged is the error object of the upstream node, out
  of the response body that the provider's failure carries.
\<close>

lemma upstream_error_passes_through:
  \<open>normalize hdr (VError ''Error'' ''processing response error''
       [(''reason'', VStr ''processing response error''), (''code'', VStr ''SERVER_ERROR''),
        (''body'', VStr ''{"jsonrpc":"2.0","id":1,"error":{"code":-32000,"message":"x"}}'')])
     = Returns (VObj (hdr @ [(''error'', VObj [(''code'', VNum (- 32000)), (''message'', VStr ''x'')])]))\<close>
  using normalize_code_body [where hdr = hdr and e = \<open>VError ''Error'' ''processing response error''
       [(''reason'', VStr ''processing response error''), (''code'', VStr ''SERVER_ERROR''),
        (''body'', VStr ''{"jsonrpc":"2.0","id":1,"error":{"code":-32000,"message":"x"}}'')]\<close>]
  by (simp add: truthy_def js_get_def own_property_def error_response_string parse_upstream_error
      nullish_def)

subsection \<open>The response envelope\<close>

text \<open>
  Whenever the handler sends a response, it is the header of the request (its
  \<^verbatim>\<open>jsonrpc\<close> and \<^verbatim>\<open>id\<close>) followed by one member, \<^verbatim>\<open>result\<close> or
  \<^verbatim>\<open>error\<close>: never both.
\<close>

lemma response_shape:
  assumes "snd (initialize h p builtin conn r) = Returns response"
  shows "\<exists>k v. response = VObj (header r @ [(k, v)]) \<and> (k = ''result'' \<or> k = ''error'')"
  using assms
  by (auto simp: initialize_def normalize_def error_response_def
      split: if_splits prod.splits outcome.splits option.splits)

text \<open>
  C2. The claim (for every request and every outcome the router sends a response
  with exactly one of \<^verbatim>\<open>result\<close> and \<^verbatim>\<open>error\<close>, and never throws) does not
  hold of the code. Run on four inputs: an upstream failure whose body is JSON
  text with no \<^verbatim>\<open>error\<close> member, and a handler that resolves to
  \<^verbatim>\<open>undefined\<close>, each give a response whose one member is \<^verbatim>\<open>undefined\<close>, so
  that the body sent has neither member; a request whose method is an object
  shadowing \<^verbatim>\<open>toString\<close>, and a call rejected with \<^verbatim>\<open>null\<close>, each make
  the handler throw, and no response is sent.
\<close>

theorem router_response_gaps:
  \<open>initialize sample_handlers (sample_provider\<lparr>send := (\<lambda>m ps. Throws bad_response)\<rparr>) builtin
       sample_connection (sample_request (VStr ''eth_blockNumber'') (VArr []))
     = ([UpstreamSend (VStr ''eth_blockNumber'') (VArr [])],
        Returns (VObj [(''jsonrpc'', VStr ''2.0''), (''id'', VNum 1), (''error'', VUndefined)]))
   \<and> sent_body (VObj [(''jsonrpc'', VStr ''2.0''), (''id'', VNum 1), (''error'', VUndefined)])
       = VStr ''{"jsonrpc":"2.0","id":1}''
   \<and> snd (initialize (sample_handlers\<lparr>eth_sign := (\<lambda>args. Returns VUndefined)\<rparr>) sample_provider builtin
         sample_connection (sample_request (VStr ''eth_sign'') (VArr [VStr ''0xabc'', VStr ''0x00''])))
       = Returns (VObj [(''jsonrpc'', VStr ''2.0''), (''id'', VNum 1), (''result'', VUndefined)])
   \<and> sent_body (VObj [(''jsonrpc'', VStr ''2.0''), (''id'', VNum 1), (''result'', VUndefined)])
       = VStr ''{"jsonrpc":"2.0","id":1}''
   \<and> initialize sample_handlers sample_provider builtin sample_connection
         (sample_request (VObj [(''toString'', VNull)]) (VArr []))
       = ([], Throws (TypeError ''Cannot convert object to primitive value''))
   \<and> initialize sample_handlers (sample_provider\<lparr>send := (\<lambda>m ps. Throws VNull)\<rparr>) builtin
         sample_connection (sample_request (VStr ''eth_blockNumber'') (VArr []))
       = ([UpstreamSend (VStr ''eth_blockNumber'') (VArr [])],
          Throws (TypeError ''Cannot read properties of undefined (reading code)''))\<close>
proof (intro conjI)
  have nb: \<open>normalize hdr bad_response = Returns (VObj (hdr @ [(''error'', VUndefined)]))\<close> for hdr
    using normalize_code_body [where hdr = hdr and e = bad_response]
    by (simp add: bad_response_def truthy_def js_get_def own_property_def error_response_string
        parse_rate_limited nullish_def)
  show \<open>initialize sample_handlers (sample_provider\<lparr>send := (\<lambda>m ps. Throws bad_response)\<rparr>) builtin
       sample_connection (sample_request (VStr ''eth_blockNumber'') (VArr []))
     = ([UpstreamSend (VStr ''eth_blockNumber'') (VArr [])],
        Returns (VObj [(''jsonrpc'', VStr ''2.0''), (''id'', VNum 1), (''error'', VUndefined)]))\<close>
    by (simp add: initialize_def route_def in_handlers_def own_handler_def
        Object_prototype_functions_def sample_provider_def sample_request_def header_def nb)
  show \<open>sent_body (VObj [(''jsonrpc'', VStr ''2.0''), (''id'', VNum 1), (''error'', VUndefined)])
       = VStr ''{"jsonrpc":"2.0","id":1}''\<close>
    by (rule sent_body_header_only)
  show \<open>snd (initialize (sample_handlers\<lparr>eth_sign := (\<lambda>args. Returns VUndefined)\<rparr>) sample_provider builtin
         sample_connection (sample_request (VStr ''eth_sign'') (VArr [VStr ''0xabc'', VStr ''0x00''])))
       = Returns (VObj [(''jsonrpc'', VStr ''2.0''), (''id'', VNum 1), (''result'', VUndefined)])\<close>
    by (simp add: initialize_def route_def in_handlers_def own_handler_def truthy_def
        sample_handlers_def sample_request_def header_def)
  show \<open>sent_body (VObj [(''jsonrpc'', VStr ''2.0''), (''id'', VNum 1), (''result'', VUndefined)])
       = VStr ''{"jsonrpc":"2.0","id":1}''\<close>
    by (rule sent_body_header_only)
  show \<open>initialize sample_handlers sample_provider builtin sample_connection
         (sample_request (VObj [(''toString'', VNull)]) (VArr []))
       = ([], Throws (TypeError ''Cannot convert object to primitive value''))\<close>
    by (simp add: initialize_def sample_request_def own_property_def)
  show \<open>initialize sample_handlers (sample_provider\<lparr>send := (\<lambda>m ps. Throws VNull)\<rparr>) builtin
         sample_connection (sample_request (VStr ''eth_blockNumber'') (VArr []))
       = ([UpstreamSend (VStr ''eth_blockNumber'') (VArr [])],
          Throws (TypeError ''Cannot read properties of undefined (reading code)''))\<close>
    by (simp add: initialize_def route_def in_handlers_def own_handler_def
        Object_prototype_functions_def sample_provider_def sample_request_def header_def
        normalize_def execution_error_def nullish_def)
qed

subsection \<open>Interception and forwarding\<close>

text \<open>
  A request for one of the three methods of the table, with its params in an array
  (or absent), is served by the bound handler, called with the params in order and
  the socket context last, and nothing is sent upstream. A request for a method
  that \<^verbatim>\<open>in\<close> does not find is sent upstream as it is, and the result comes
  back in the envelope unchanged.
\<close>

lemma intercepted_served_by_handler:
  assumes "own_handler h key = Some f" and "rq_method r = VStr key"
      and "rq_params r = VArr args \<or> (\<not> truthy (rq_params r) \<and> args = [])"
  shows "fst (initialize h p builtin conn r) = [HandlerCall key (args @ [socket_of conn r p])]
       \<and> (f (args @ [socket_of conn r p]) = Returns result \<longrightarrow>
            snd (initialize h p builtin conn r) = Returns (VObj (header r @ [(''result'', result)])))"
proof -
  have k: "key \<noteq> ''__proto__''" using assms(1) by (auto simp: own_handler_def split: if_splits)
  have sp: "spread (if truthy (rq_params r) then rq_params r else VArr []) = Returns args"
    using assms(3) by (auto simp: truthy_def)
  have "route h p builtin r (socket_of conn r p)
          = ([HandlerCall key (args @ [socket_of conn r p])], f (args @ [socket_of conn r p]))"
    using assms(1,2) k sp by (simp add: route_def in_handlers_def)
  then show ?thesis using assms(2)
    by (auto simp: initialize_def split: outcome.splits)
qed

lemma other_method_forwarded:
  assumes "rq_method r = VStr m" and "\<not> in_handlers h m"
  shows "fst (initialize h p builtin conn r) = [UpstreamSend (VStr m) (rq_params r)]
       \<and> (send p (VStr m) (rq_params r) = Returns result \<longrightarrow>
            snd (initialize h p builtin conn r) = Returns (VObj (header r @ [(''result'', result)])))"
  using assms by (auto simp: initialize_def route_def split: outcome.splits)

text \<open>
  C1. The second half of the claim (every method outside the intercepted set is
  forwarded upstream) does not hold of the code: \<^verbatim>\<open>toString\<close> is not a key of
  the handler table, yet \<^verbatim>\<open>in\<close> finds it on the table's prototype, so the
  request is served by the inherited function bound to the wrapper and never
  reaches the provider. The response carries that function's result.
\<close>

theorem inherited_method_not_forwarded:
  "own_handler h ''toString'' = None
   \<and> fst (initialize h p builtin conn (sample_request (VStr ''toString'') (VArr [])))
       = [InheritedCall ''toString'' [socket_of conn (sample_request (VStr ''toString'') (VArr [])) p]]
   \<and> initialize sample_handlers sample_provider (\<lambda>k args. Returns (VStr ''[object Object]''))
         sample_connection (sample_request (VStr ''toString'') (VArr []))
       = ([InheritedCall ''toString''
             [VObj [(''clientAddr'', VStr ''::1''), (''clientPort'', VNum 50000),
                    (''clientId'', VNum 1), (''serverId'', VNum 42)]]],
          Returns (VObj [(''jsonrpc'', VStr ''2.0''), (''id'', VNum 1),
                         (''result'', VStr ''[object Object]'')]))"
  by (auto simp: initialize_def route_def in_handlers_def own_handler_def
      Object_prototype_functions_def sample_request_def header_def socket_of_def
      sample_provider_def sample_connection_def truthy_def split: outcome.splits)

end
